theory Spec2Isabelle
  imports Complex_Main
begin

section \<open>Python values shared by the worker service and the drift tests\<close>

text \<open>
  Exceptions are values. Every raise of the two modules is one of these; the payload is
  the message (for a \<open>KeyError\<close>, the missing key).
\<close>

datatype py_error =
    ValueError string
  | AssertionError string
  | TypeError string
  | KeyError string
  | ZeroDivisionError string

text \<open>The two quote characters, for messages that contain them.\<close>

definition sq :: string where
  "sq = [CHR 0x27]"

definition dq :: string where
  "dq = [CHR 0x22]"

text \<open>
  Floating point numbers. The finite part is idealised as a real number (no rounding);
  the three special values that numpy produces instead of raising are kept, since the
  code relies on them: \<open>x / 0.0\<close> is an infinity, \<open>0 / 0.0\<close> is \<open>nan\<close>.
  Zero is unsigned and behaves as \<open>+0.0\<close>.
\<close>

datatype npfloat = Fin real | PInf | NInf | NaN

datatype TestMessageType = TestMessageType_ERROR | TestMessageType_INFO

datatype TestMessageLevel = TestMessageLevel_ERROR | TestMessageLevel_INFO

text \<open>
  A \<open>TestMessage(type=..., text=...)\<close> as the drift tests build it, kept as its two
  arguments. The text is a formatted string whose numbers stay symbolic, so its type is a
  parameter.
\<close>

record 't TestMessage =
  pb_type :: TestMessageType
  pb_text :: 't

text \<open>The message class of \<open>giskard.ml_worker.core.test_result\<close>, read by the service.\<close>

record CoreTestMessage =
  m_type :: TestMessageLevel
  m_text :: string

record PartialUnexpectedCounts =
  puc_value :: "int list"
  puc_count :: int

text \<open>
  \<open>TestResult\<close>: the fields are those that \<open>map_result_to_single_test_result\<close>
  reads. \<open>messages\<close> may be \<open>None\<close>: the drift tests construct it so
  (\<open>messages: Union[List[TestMessage], None] = None\<close>). The class of the messages is
  a parameter, since the drift tests store protobuf messages and the service reads core
  messages.
\<close>

record 'm TestResult =
  passed :: bool
  messages :: "'m list option"
  props :: "(string \<times> string) list"
  metric :: npfloat
  missing_count :: int
  missing_percent :: npfloat
  unexpected_count :: int
  unexpected_percent :: npfloat
  unexpected_percent_total :: npfloat
  unexpected_percent_nonmissing :: npfloat
  partial_unexpected_index_list :: "PartialUnexpectedCounts list"
  unexpected_index_list :: "int list"
  output_df :: string
  number_of_perturbed_rows :: int
  actual_slices_size :: "int list"
  reference_slices_size :: "int list"

text \<open>
  The generated module \<open>ml_worker_pb2\<close> is not among the sources. Its three classes
  \<open>TestMessage\<close>, \<open>Partial_unexpected_counts\<close> and \<open>SingleTestResult\<close> are therefore
  parameters of the service function: three types and their constructors, each of which
  may raise (protobuf checks the types and ranges of the values it is given). A call of
  \<open>SingleTestResult\<close> passes some of sixteen keyword arguments; a keyword that is not
  passed is \<open>None\<close> in the record of the keywords.
\<close>

record ('tm, 'puc) SingleTestResult_kwargs =
  kw_passed :: "bool option"
  kw_messages :: "'tm list option"
  kw_props :: "(string \<times> string) list option"
  kw_metric :: "npfloat option"
  kw_missing_count :: "int option"
  kw_missing_percent :: "npfloat option"
  kw_unexpected_count :: "int option"
  kw_unexpected_percent :: "npfloat option"
  kw_unexpected_percent_total :: "npfloat option"
  kw_unexpected_percent_nonmissing :: "npfloat option"
  kw_partial_unexpected_index_list :: "'puc list option"
  kw_unexpected_index_list :: "int list option"
  kw_output_df :: "string option"
  kw_number_of_perturbed_rows :: "int option"
  kw_actual_slices_size :: "int list option"
  kw_reference_slices_size :: "int list option"

definition no_kwargs :: "('tm, 'puc) SingleTestResult_kwargs" where
  "no_kwargs =
     \<lparr>kw_passed = None, kw_messages = None, kw_props = None, kw_metric = None,
      kw_missing_count = None, kw_missing_percent = None, kw_unexpected_count = None,
      kw_unexpected_percent = None, kw_unexpected_percent_total = None,
      kw_unexpected_percent_nonmissing = None, kw_partial_unexpected_index_list = None,
      kw_unexpected_index_list = None, kw_output_df = None,
      kw_number_of_perturbed_rows = None, kw_actual_slices_size = None,
      kw_reference_slices_size = None\<rparr>"

record ('tm, 'puc, 'str) ml_worker_pb2 =
  TestMessage_new :: "TestMessageType \<Rightarrow> string \<Rightarrow> py_error + 'tm"
  Partial_unexpected_counts_new :: "int list \<Rightarrow> int \<Rightarrow> py_error + 'puc"
  SingleTestResult_new :: "('tm, 'puc) SingleTestResult_kwargs \<Rightarrow> py_error + 'str"

section \<open>ml_worker_service.py: map_result_to_single_test_result\<close>

text \<open>
  The argument is any Python object; \<open>isinstance\<close> tells four cases apart. An object of
  another class is represented by the name of its class.
\<close>

datatype 'str py_result =
    SingleTestResult_obj 'str
  | TestResult_obj "CoreTestMessage TestResult"
  | bool_obj bool
  | other_obj string

text \<open>
  A list comprehension \<open>[f(x) for x in xs]\<close> whose body may raise: the first error ends
  it.
\<close>

fun comprehension :: "('a \<Rightarrow> py_error + 'b) \<Rightarrow> 'a list \<Rightarrow> py_error + 'b list" where
  "comprehension f [] = Inr []"
| "comprehension f (x # xs) =
     (case f x of
        Inl e \<Rightarrow> Inl e
      | Inr y \<Rightarrow> (case comprehension f xs of Inl e \<Rightarrow> Inl e | Inr ys \<Rightarrow> Inr (y # ys)))"

text \<open>
  The keyword arguments are evaluated in the order they are written: the comprehension
  over \<open>result.messages\<close> first, which raises \<open>TypeError\<close> when \<open>messages\<close> is \<open>None\<close>, then
  the one over \<open>result.partial_unexpected_index_list\<close>, then the call of
  \<open>SingleTestResult\<close>.
\<close>

fun map_result_to_single_test_result ::
  "('tm, 'puc, 'str) ml_worker_pb2 \<Rightarrow> 'str py_result \<Rightarrow> py_error + 'str" where
  "map_result_to_single_test_result pb2 (SingleTestResult_obj result) = Inr result"
| "map_result_to_single_test_result pb2 (TestResult_obj result) =
     (case messages result of
        None \<Rightarrow> Inl (TypeError (sq @ ''NoneType'' @ sq @ '' object is not iterable''))
      | Some ms \<Rightarrow>
     (case comprehension
             (\<lambda>message.
                TestMessage_new pb2
                  (if m_type message = TestMessageLevel_ERROR then TestMessageType_ERROR
                   else TestMessageType_INFO)
                  (m_text message))
             ms of
        Inl e \<Rightarrow> Inl e
      | Inr pb_messages \<Rightarrow>
     (case comprehension
             (\<lambda>puc. Partial_unexpected_counts_new pb2 (puc_value puc) (puc_count puc))
             (partial_unexpected_index_list result) of
        Inl e \<Rightarrow> Inl e
      | Inr pb_partial_unexpected_index_list \<Rightarrow>
          SingleTestResult_new pb2
            \<lparr>kw_passed = Some (passed result),
             kw_messages = Some pb_messages,
             kw_props = Some (props result),
             kw_metric = Some (metric result),
             kw_missing_count = Some (missing_count result),
             kw_missing_percent = Some (missing_percent result),
             kw_unexpected_count = Some (unexpected_count result),
             kw_unexpected_percent = Some (unexpected_percent result),
             kw_unexpected_percent_total = Some (unexpected_percent_total result),
             kw_unexpected_percent_nonmissing = Some (unexpected_percent_nonmissing result),
             kw_partial_unexpected_index_list = Some pb_partial_unexpected_index_list,
             kw_unexpected_index_list = Some (unexpected_index_list result),
             kw_output_df = Some (output_df result),
             kw_number_of_perturbed_rows = Some (number_of_perturbed_rows result),
             kw_actual_slices_size = Some (actual_slices_size result),
             kw_reference_slices_size = Some (reference_slices_size result)\<rparr>)))"
| "map_result_to_single_test_result pb2 (bool_obj result) =
     SingleTestResult_new pb2 (no_kwargs\<lparr>kw_passed := Some result\<rparr>)"
| "map_result_to_single_test_result pb2 (other_obj cls) =
     Inl (ValueError (''Result of test can only be '' @ sq @ ''GiskardTestResult'' @ sq
                      @ '' or '' @ sq @ ''bool'' @ sq))"

section \<open>drift.py: floating point operations\<close>

text \<open>
  The functions of \<open>drift.py\<close> keep their names, without the leading underscore of the
  private ones: \<open>_calculate_psi\<close> is \<open>calculate_psi\<close>, and so on.
\<close>

text \<open>
  The operations the drift module applies to floats, with the IEEE results at the special
  values. A comparison with \<open>nan\<close> is false.
\<close>

fun fneg :: "npfloat \<Rightarrow> npfloat" where
  "fneg (Fin x) = Fin (- x)"
| "fneg PInf = NInf"
| "fneg NInf = PInf"
| "fneg NaN = NaN"

fun fadd :: "npfloat \<Rightarrow> npfloat \<Rightarrow> npfloat" where
  "fadd NaN b = NaN"
| "fadd a NaN = NaN"
| "fadd (Fin x) (Fin y) = Fin (x + y)"
| "fadd PInf NInf = NaN"
| "fadd NInf PInf = NaN"
| "fadd PInf b = PInf"
| "fadd a PInf = PInf"
| "fadd NInf b = NInf"
| "fadd a NInf = NInf"

definition fsub :: "npfloat \<Rightarrow> npfloat \<Rightarrow> npfloat" where
  "fsub a b = fadd a (fneg b)"

fun fmul :: "npfloat \<Rightarrow> npfloat \<Rightarrow> npfloat" where
  "fmul NaN b = NaN"
| "fmul a NaN = NaN"
| "fmul (Fin x) (Fin y) = Fin (x * y)"
| "fmul (Fin x) PInf = (if x = 0 then NaN else if 0 < x then PInf else NInf)"
| "fmul (Fin x) NInf = (if x = 0 then NaN else if 0 < x then NInf else PInf)"
| "fmul PInf (Fin y) = (if y = 0 then NaN else if 0 < y then PInf else NInf)"
| "fmul NInf (Fin y) = (if y = 0 then NaN else if 0 < y then NInf else PInf)"
| "fmul PInf PInf = PInf"
| "fmul PInf NInf = NInf"
| "fmul NInf PInf = NInf"
| "fmul NInf NInf = PInf"

fun fdiv :: "npfloat \<Rightarrow> npfloat \<Rightarrow> npfloat" where
  "fdiv NaN b = NaN"
| "fdiv a NaN = NaN"
| "fdiv (Fin x) (Fin y) =
     (if y = 0 then (if x = 0 then NaN else if 0 < x then PInf else NInf) else Fin (x / y))"
| "fdiv (Fin x) PInf = Fin 0"
| "fdiv (Fin x) NInf = Fin 0"
| "fdiv PInf (Fin y) = (if 0 \<le> y then PInf else NInf)"
| "fdiv NInf (Fin y) = (if 0 \<le> y then NInf else PInf)"
| "fdiv PInf PInf = NaN"
| "fdiv PInf NInf = NaN"
| "fdiv NInf PInf = NaN"
| "fdiv NInf NInf = NaN"

fun flog :: "npfloat \<Rightarrow> npfloat" where
  "flog (Fin x) = (if x < 0 then NaN else if x = 0 then NInf else Fin (ln x))"
| "flog PInf = PInf"
| "flog NInf = NaN"
| "flog NaN = NaN"

fun fle :: "npfloat \<Rightarrow> npfloat \<Rightarrow> bool" where
  "fle NaN b = False"
| "fle a NaN = False"
| "fle (Fin x) (Fin y) = (x \<le> y)"
| "fle NInf b = True"
| "fle a PInf = True"
| "fle PInf b = False"
| "fle a NInf = False"

fun flt :: "npfloat \<Rightarrow> npfloat \<Rightarrow> bool" where
  "flt NaN b = False"
| "flt a NaN = False"
| "flt (Fin x) (Fin y) = (x < y)"
| "flt PInf b = False"
| "flt a NInf = False"
| "flt NInf b = True"
| "flt a PInf = True"

definition fgt :: "npfloat \<Rightarrow> npfloat \<Rightarrow> bool" where
  "fgt a b = flt b a"

definition fge :: "npfloat \<Rightarrow> npfloat \<Rightarrow> bool" where
  "fge a b = fle b a"

text \<open>
  Python's built-in \<open>max(a, b)\<close> keeps \<open>a\<close> unless \<open>b > a\<close>; so \<open>max(nan, b)\<close> is
  \<open>nan\<close>.
\<close>

definition py_max :: "npfloat \<Rightarrow> npfloat \<Rightarrow> npfloat" where
  "py_max a b = (if fgt b a then b else a)"

text \<open>An integer count divided by an integer length, as numpy divides an array.\<close>

definition np_true_divide :: "int \<Rightarrow> int \<Rightarrow> npfloat" where
  "np_true_divide c n = fdiv (Fin (real_of_int c)) (Fin (real_of_int n))"

text \<open>\<open>np.round(x, 9)\<close>: to nine decimals, a tie going to the even neighbour.\<close>

definition rint :: "real \<Rightarrow> int" where
  "rint x =
     (let f = \<lfloor>x\<rfloor>; r = x - real_of_int f
      in if r < 1 / 2 then f else if 1 / 2 < r then f + 1 else if even f then f else f + 1)"

definition np_round :: "real \<Rightarrow> nat \<Rightarrow> real" where
  "np_round x d = real_of_int (rint (x * 10 ^ d)) / 10 ^ d"

definition np_round_float :: "npfloat \<Rightarrow> nat \<Rightarrow> npfloat" where
  "np_round_float v d = (case v of Fin x \<Rightarrow> Fin (np_round x d) | _ \<Rightarrow> v)"

section \<open>drift.py: the values of numerical columns\<close>

text \<open>
  A value of a numerical column, or a predicted number, is a numpy scalar of dtype
  \<open>int64\<close>, an integer from \<open>-2^63\<close> up to \<open>2^63 - 1\<close>, or of dtype \<open>float64\<close>. The
  arithmetic is the one of the dtype: a difference of two \<open>int64\<close> wraps around, a
  \<open>float64\<close> result beyond the largest double is an infinity, and an operation on an
  \<open>int64\<close> and a \<open>float64\<close> is done on doubles. Rounding of doubles inside the range is
  not modelled.
\<close>

datatype number = I64 int | F64 npfloat

definition wrap64 :: "int \<Rightarrow> int" where
  "wrap64 k = (k + 2 ^ 63) mod 2 ^ 64 - 2 ^ 63"

definition max_float64 :: real where
  "max_float64 = (2 ^ 53 - 1) * 2 ^ 971"

definition overflow :: "npfloat \<Rightarrow> npfloat" where
  "overflow v =
     (case v of
        Fin x \<Rightarrow> if max_float64 < x then PInf else if x < - max_float64 then NInf else Fin x
      | _ \<Rightarrow> v)"

fun to_float64 :: "number \<Rightarrow> npfloat" where
  "to_float64 (I64 k) = Fin (real_of_int k)"
| "to_float64 (F64 v) = v"

fun np_subtract :: "number \<Rightarrow> number \<Rightarrow> number" where
  "np_subtract (I64 a) (I64 b) = I64 (wrap64 (a - b))"
| "np_subtract a b = F64 (overflow (fsub (to_float64 a) (to_float64 b)))"

text \<open>True division gives a double, also for two \<open>int64\<close>.\<close>

definition np_divide :: "number \<Rightarrow> number \<Rightarrow> npfloat" where
  "np_divide a b = overflow (fdiv (to_float64 a) (to_float64 b))"

text \<open>Comparisons: exact on two \<open>int64\<close>, on doubles otherwise; \<open>nan\<close> equals nothing.\<close>

fun number_gt :: "number \<Rightarrow> number \<Rightarrow> bool" where
  "number_gt (I64 a) (I64 b) = (b < a)"
| "number_gt a b = fgt (to_float64 a) (to_float64 b)"

fun number_lt :: "number \<Rightarrow> number \<Rightarrow> bool" where
  "number_lt (I64 a) (I64 b) = (a < b)"
| "number_lt a b = flt (to_float64 a) (to_float64 b)"

fun number_eq :: "number \<Rightarrow> number \<Rightarrow> bool" where
  "number_eq (I64 a) (I64 b) = (a = b)"
| "number_eq a b = (to_float64 a \<noteq> NaN \<and> to_float64 a = to_float64 b)"

text \<open>
  Python's \<open>max\<close> and \<open>min\<close> of a non-empty list: the first element, replaced by each
  later element that is greater (smaller) than the current one.
\<close>

definition py_max_list :: "number \<Rightarrow> number list \<Rightarrow> number" where
  "py_max_list x xs = fold (\<lambda>y r. if number_gt y r then y else r) xs x"

definition py_min_list :: "number \<Rightarrow> number list \<Rightarrow> number" where
  "py_min_list x xs = fold (\<lambda>y r. if number_lt y r then y else r) xs x"

text \<open>
  The position of a value in a sorted array: infinities at the ends, \<open>nan\<close> last, the
  finite values by their value.
\<close>

fun number_class :: "number \<Rightarrow> nat" where
  "number_class (F64 NInf) = 0"
| "number_class (F64 PInf) = 2"
| "number_class (F64 NaN) = 3"
| "number_class v = 1"

fun number_value :: "number \<Rightarrow> real" where
  "number_value (I64 k) = real_of_int k"
| "number_value (F64 (Fin x)) = x"
| "number_value v = 0"

section \<open>drift.py: Counter, dict and the frequency table\<close>

text \<open>
  A categorical series is a list of strings. A \<open>Counter\<close> and a \<open>dict\<close> are association
  lists with distinct keys in insertion order, which for a \<open>Counter\<close> built from a series
  is the order of first occurrence.
\<close>

definition first_seen :: "'a list \<Rightarrow> 'a list" where
  "first_seen xs = rev (remdups (rev xs))"

definition Counter :: "'a list \<Rightarrow> ('a \<times> int) list" where
  "Counter xs = map (\<lambda>k. (k, int (count_list xs k))) (first_seen xs)"

text \<open>Indexing a \<open>Counter\<close> with a missing key gives 0.\<close>

definition counter_getitem :: "('a \<times> int) list \<Rightarrow> 'a \<Rightarrow> int" where
  "counter_getitem c k = (case map_of c k of None \<Rightarrow> 0 | Some n \<Rightarrow> n)"

text \<open>
  \<open>most_common(n)\<close>: the items by decreasing count, items of equal count in insertion
  order (the sort is stable), cut to the first \<open>n\<close>; none when \<open>n \<le> 0\<close>.
\<close>

definition most_common :: "int \<Rightarrow> ('a \<times> int) list \<Rightarrow> ('a \<times> int) list" where
  "most_common n c = take (nat n) (sort_key (\<lambda>kv. - snd kv) c)"

text \<open>\<open>d[k] = v\<close>: an existing key keeps its place, a new key goes last.\<close>

fun dict_setitem :: "('k \<times> 'v) list \<Rightarrow> 'k \<Rightarrow> 'v \<Rightarrow> ('k \<times> 'v) list" where
  "dict_setitem [] k v = [(k, v)]"
| "dict_setitem ((k', v') # d) k v =
     (if k' = k then (k, v) # d else (k', v') # dict_setitem d k v)"

text \<open>\<open>d[k]\<close> on a \<open>dict\<close> raises \<open>KeyError\<close> for a missing key.\<close>

definition dict_getitem :: "(string \<times> 'v) list \<Rightarrow> string \<Rightarrow> py_error + 'v" where
  "dict_getitem d k = (case map_of d k of None \<Rightarrow> Inl (KeyError k) | Some v \<Rightarrow> Inr v)"

text \<open>The comprehension \<open>[d[i] for i in ks]\<close>, stopping at the first \<open>KeyError\<close>.\<close>

fun dict_getitems :: "(string \<times> 'v) list \<Rightarrow> string list \<Rightarrow> py_error + 'v list" where
  "dict_getitems d [] = Inr []"
| "dict_getitems d (k # ks) =
     (case dict_getitem d k of
        Inl e \<Rightarrow> Inl e
      | Inr v \<Rightarrow> (case dict_getitems d ks of Inl e \<Rightarrow> Inl e | Inr vs \<Rightarrow> Inr (v # vs)))"

text \<open>
  \<open>list(set(reference_series).union(set(actual_series)))\<close>: the distinct values of both
  series. Python leaves the order of a set to the hashes of its elements; the model lists
  them in order of first occurrence, reference series first.
\<close>

definition union_list :: "'a list \<Rightarrow> 'a list \<Rightarrow> 'a list" where
  "union_list reference_series actual_series = first_seen (reference_series @ actual_series)"

text \<open>
  \<open>"other_modalities_" + uuid.uuid1().hex\<close>: the 32 hexadecimal digits that \<open>uuid1\<close> draws
  are an argument of the model.
\<close>

definition other_modalities_key :: "string \<Rightarrow> string" where
  "other_modalities_key uuid_hex = ''other_modalities_'' @ uuid_hex"

text \<open>
  The condition of \<open>_calculate_frequencies\<close> (lines 35-54) under which the categories are
  capped: \<open>max_categories is not None and len(all_modalities) > max_categories\<close>.
\<close>

definition capping_active :: "string list \<Rightarrow> string list \<Rightarrow> int option \<Rightarrow> bool" where
  "capping_active actual_series reference_series max_categories =
     (case max_categories of
        None \<Rightarrow> False
      | Some m \<Rightarrow> m < int (length (union_list reference_series actual_series)))"

definition calculate_frequencies ::
  "string list \<Rightarrow> string list \<Rightarrow> int option \<Rightarrow> string
     \<Rightarrow> py_error + (string list \<times> int list \<times> int list)" where
  "calculate_frequencies actual_series reference_series max_categories uuid_hex =
     (let all_modalities = union_list reference_series actual_series in
      case max_categories of
        None \<Rightarrow>
          Inr (all_modalities,
               map (counter_getitem (Counter actual_series)) all_modalities,
               map (counter_getitem (Counter reference_series)) all_modalities)
      | Some m \<Rightarrow>
          if m < int (length all_modalities) then
            (let var_count_expected = most_common m (Counter reference_series);
                 other_key = other_modalities_key uuid_hex;
                 var_count_expected =
                   dict_setitem var_count_expected other_key
                     (int (length reference_series) - sum_list (map snd var_count_expected));
                 categories_list = map fst var_count_expected;
                 var_count_actual = Counter actual_series;
                 var_count_actual =
                   map (\<lambda>i. (i, counter_getitem var_count_actual i)) categories_list;
                 var_count_actual =
                   dict_setitem var_count_actual other_key
                     (int (length actual_series) - sum_list (map snd var_count_actual));
                 all_modalities = categories_list
             in case dict_getitems var_count_expected all_modalities of
                  Inl e \<Rightarrow> Inl e
                | Inr expected_frequencies \<Rightarrow>
                   (case dict_getitems var_count_actual all_modalities of
                      Inl e \<Rightarrow> Inl e
                    | Inr actual_frequencies \<Rightarrow>
                        Inr (all_modalities, actual_frequencies, expected_frequencies)))
          else
            Inr (all_modalities,
                 map (counter_getitem (Counter actual_series)) all_modalities,
                 map (counter_getitem (Counter reference_series)) all_modalities))"

section \<open>drift.py: the PSI calculator\<close>

definition calculate_psi :: "nat \<Rightarrow> npfloat list \<Rightarrow> npfloat list \<Rightarrow> npfloat" where
  "calculate_psi category actual_distribution expected_distribution =
     (let min_distribution_probability = Fin (1 / 10000);
          expected_distribution_bounded =
            py_max (expected_distribution ! category) min_distribution_probability;
          actual_distribution_bounded =
            py_max (actual_distribution ! category) min_distribution_probability;
          modality_psi =
            fmul (fsub expected_distribution_bounded actual_distribution_bounded)
                 (flog (fdiv expected_distribution_bounded actual_distribution_bounded))
      in modality_psi)"

text \<open>A row of the data frame with the columns Modality, Reference\_distribution,
  Actual\_distribution and Psi.\<close>

record psi_row =
  Modality :: string
  Reference_distribution :: npfloat
  Actual_distribution :: npfloat
  Psi :: npfloat

text \<open>The body of the loop over \<open>range(len(all_modalities))\<close>, on the pair
  \<open>(total_psi, output_data)\<close>.\<close>

definition drift_psi_step ::
  "string list \<Rightarrow> npfloat list \<Rightarrow> npfloat list \<Rightarrow> nat
     \<Rightarrow> npfloat \<times> psi_row list \<Rightarrow> npfloat \<times> psi_row list" where
  "drift_psi_step all_modalities actual_distribution expected_distribution category acc =
     (let modality_psi = calculate_psi category actual_distribution expected_distribution;
          total_psi = fadd (fst acc) modality_psi;
          row = \<lparr>Modality = all_modalities ! category,
                 Reference_distribution = expected_distribution ! category,
                 Actual_distribution = expected_distribution ! category,
                 Psi = modality_psi\<rparr>
      in (total_psi, snd acc @ [row]))"

definition calculate_drift_psi ::
  "string list \<Rightarrow> string list \<Rightarrow> int option \<Rightarrow> string
     \<Rightarrow> py_error + (npfloat \<times> psi_row list)" where
  "calculate_drift_psi actual_series reference_series max_categories uuid_hex =
     (case calculate_frequencies actual_series reference_series max_categories uuid_hex of
        Inl e \<Rightarrow> Inl e
      | Inr (all_modalities, actual_frequencies, expected_frequencies) \<Rightarrow>
          (let expected_distribution =
                 map (\<lambda>c. np_true_divide c (int (length reference_series)))
                     expected_frequencies;
               actual_distribution =
                 map (\<lambda>c. np_true_divide c (int (length actual_series))) actual_frequencies
           in Inr (fold (drift_psi_step all_modalities actual_distribution
                           expected_distribution)
                        [0..<length all_modalities] (Fin 0, []))))"

section \<open>drift.py: the KS, Earth-Mover and chi-squared calculators\<close>

text \<open>
  \<open>ks_2samp\<close>, \<open>wasserstein_distance\<close> and \<open>chi2.cdf\<close> belong to scipy, not to this
  repository: they are arguments of the functions that call them. The first two may
  raise (scipy rejects an empty sample), so they return a result or an error.
\<close>

record Ks_2sampResult =
  statistic :: real
  pvalue :: real

definition calculate_ks ::
  "(number list \<Rightarrow> number list \<Rightarrow> py_error + Ks_2sampResult)
     \<Rightarrow> number list \<Rightarrow> number list \<Rightarrow> py_error + Ks_2sampResult" where
  "calculate_ks ks_2samp actual_series reference_series =
     ks_2samp reference_series actual_series"

text \<open>
  \<open>np.unique\<close>: the distinct values in increasing order (a stable sort by value, then by
  class).
\<close>

definition np_unique :: "number list \<Rightarrow> number list" where
  "np_unique xs = sort_key number_class (sort_key number_value (remdups xs))"

text \<open>
  The metric is the \<open>int\<close> 0 on the degenerate path and the double that
  \<open>wasserstein_distance\<close> returns otherwise. \<open>reference_series - val_min\<close> and
  \<open>val_max - val_min\<close> are differences in the dtype of the column; the division gives
  doubles.
\<close>

definition calculate_earth_movers_distance ::
  "(npfloat list \<Rightarrow> npfloat list \<Rightarrow> py_error + npfloat)
     \<Rightarrow> number list \<Rightarrow> number list \<Rightarrow> py_error + npfloat" where
  "calculate_earth_movers_distance wasserstein_distance actual_series reference_series =
     (let unique_reference = np_unique reference_series;
          unique_actual = np_unique actual_series;
          sample_space = union_list unique_reference unique_actual
      in case sample_space of
           [] \<Rightarrow> Inl (ValueError ''max() arg is an empty sequence'')
         | x # xs \<Rightarrow>
           (let val_max = py_max_list x xs;
                val_min = py_min_list x xs
            in if number_eq val_max val_min then Inr (Fin 0)
               else
                 (let reference_series =
                        map (\<lambda>v. np_divide (np_subtract v val_min)
                                            (np_subtract val_max val_min))
                            reference_series;
                      actual_series =
                        map (\<lambda>v. np_divide (np_subtract v val_min)
                                            (np_subtract val_max val_min))
                            actual_series
                  in wasserstein_distance reference_series actual_series)))"

record chi_row =
  chi_Modality :: string
  Reference_frequencies :: int
  Actual_frequencies :: int
  Chi_square :: npfloat

definition chi_square_step ::
  "string list \<Rightarrow> int list \<Rightarrow> int list \<Rightarrow> npfloat \<Rightarrow> nat
     \<Rightarrow> npfloat \<times> chi_row list \<Rightarrow> npfloat \<times> chi_row list" where
  "chi_square_step all_modalities actual_frequencies expected_frequencies k_norm i acc =
     (let expected_scaled = fmul (Fin (real_of_int (expected_frequencies ! i))) k_norm;
          difference = fsub (Fin (real_of_int (actual_frequencies ! i))) expected_scaled;
          chi_square_value = fdiv (fmul difference difference) expected_scaled;
          chi_square = fadd (fst acc) chi_square_value;
          row = \<lparr>chi_Modality = all_modalities ! i,
                 Reference_frequencies = expected_frequencies ! i,
                 Actual_frequencies = actual_frequencies ! i,
                 Chi_square = chi_square_value\<rparr>
      in (chi_square, snd acc @ [row]))"

definition calculate_chi_square ::
  "(npfloat \<Rightarrow> nat \<Rightarrow> npfloat) \<Rightarrow> string list \<Rightarrow> string list \<Rightarrow> int option \<Rightarrow> string
     \<Rightarrow> py_error + (npfloat \<times> npfloat \<times> chi_row list)" where
  "calculate_chi_square chi2_cdf actual_series reference_series max_categories uuid_hex =
     (case calculate_frequencies actual_series reference_series max_categories uuid_hex of
        Inl e \<Rightarrow> Inl e
      | Inr (all_modalities, actual_frequencies, expected_frequencies) \<Rightarrow>
          if length reference_series = 0 then Inl (ZeroDivisionError ''division by zero'')
          else
            (let k_norm = Fin (real (length actual_series) / real (length reference_series));
                 loop = fold (chi_square_step all_modalities actual_frequencies
                                expected_frequencies k_norm)
                             [0..<length all_modalities] (Fin 0, []);
                 chi_square = fst loop;
                 output_data = snd loop;
                 p_value =
                   (if 1 < length all_modalities then
                      (let chi_cdf = chi2_cdf chi_square (length all_modalities - 1)
                       in if chi_cdf \<noteq> Fin 0 then fsub (Fin 1) chi_cdf else Fin 0)
                    else Fin 0)
             in Inr (chi_square, p_value, output_data)))"

section \<open>drift.py: datasets, models and input validation\<close>

text \<open>
  \<open>Dataset\<close> and \<open>BaseModel\<close> are declared outside the two modules; the model keeps what
  the drift tests read. A dataset is its data frame, as the columns in order with their
  values, and the feature type declared for each column. The values of a column are
  strings for a categorical feature and reals for a numerical one, so their type is a
  parameter. The row index, which \<open>reset_index\<close> renumbers, is not part of the model: no
  value read by the tests depends on it.
\<close>

record 'v Dataset =
  df :: "(string \<times> 'v list) list"
  feature_types :: "(string \<times> string) list"

definition columns :: "'v Dataset \<Rightarrow> string list" where
  "columns ds = map fst (df ds)"

text \<open>\<open>len(dataset)\<close>: the number of rows.\<close>

definition len_Dataset :: "'v Dataset \<Rightarrow> int" where
  "len_Dataset ds = (case df ds of [] \<Rightarrow> 0 | c # cs \<Rightarrow> int (length (snd c)))"

datatype SupportedModelTypes = CLASSIFICATION | REGRESSION

text \<open>
  What \<open>model.predict\<close> returns: \<open>prediction\<close>, one value per row, and
  \<open>all_predictions\<close>, a data frame with one column of probabilities per label.
\<close>

record 'p ModelPredictionResults =
  prediction :: "'p list"
  all_predictions :: "(string \<times> number list) list"

record ('v, 'p) BaseModel =
  model_type :: SupportedModelTypes
  classification_labels :: "string list"
  predict :: "'v Dataset \<Rightarrow> 'p ModelPredictionResults"

definition is_classification :: "('v, 'p) BaseModel \<Rightarrow> bool" where
  "is_classification model = (model_type model = CLASSIFICATION)"

fun join :: "string \<Rightarrow> string list \<Rightarrow> string" where
  "join sep [] = []"
| "join sep [x] = x"
| "join sep (x # y # ys) = x @ sep @ join sep (y # ys)"

definition validate_feature_type :: "'v Dataset \<Rightarrow> string \<Rightarrow> string \<Rightarrow> py_error + unit" where
  "validate_feature_type gsk_dataset column_name feature_type =
     (case dict_getitem (feature_types gsk_dataset) column_name of
        Inl e \<Rightarrow> Inl e
      | Inr t \<Rightarrow>
          if t = feature_type then Inr ()
          else Inl (AssertionError (''Column '' @ dq @ column_name @ dq
                      @ '' is not of type '' @ dq @ feature_type @ dq)))"

definition validate_column_name :: "'v Dataset \<Rightarrow> 'v Dataset \<Rightarrow> string \<Rightarrow> py_error + unit" where
  "validate_column_name actual_ds reference_ds column_name =
     (if column_name \<notin> set (columns actual_ds) then
        Inl (AssertionError (dq @ column_name @ dq
               @ '' is not a column of Actual Dataset Columns: ''
               @ join '', '' (columns actual_ds)))
      else if column_name \<notin> set (columns reference_ds) then
        Inl (AssertionError (dq @ column_name @ dq
               @ '' is not a column of Reference Dataset Columns: ''
               @ join '', '' (columns reference_ds)))
      else Inr ())"

definition validate_series_notempty :: "'v list \<Rightarrow> 'v list \<Rightarrow> py_error + unit" where
  "validate_series_notempty actual_series reference_series =
     (if actual_series = [] then
        Inl (ValueError ''Actual Series computed from the column is empty'')
      else if reference_series = [] then
        Inl (ValueError ''Reference Series computed from the column is empty'')
      else Inr ())"

definition extract_series ::
  "'v Dataset \<Rightarrow> 'v Dataset \<Rightarrow> string \<Rightarrow> string \<Rightarrow> py_error + ('v list \<times> 'v list)" where
  "extract_series actual_ds reference_ds column_name feature_type =
     (case validate_column_name actual_ds reference_ds column_name of
        Inl e \<Rightarrow> Inl e
      | Inr u1 \<Rightarrow>
     (case validate_feature_type actual_ds column_name feature_type of
        Inl e \<Rightarrow> Inl e
      | Inr u2 \<Rightarrow>
     (case validate_feature_type reference_ds column_name feature_type of
        Inl e \<Rightarrow> Inl e
      | Inr u3 \<Rightarrow>
     (case dict_getitem (df actual_ds) column_name of
        Inl e \<Rightarrow> Inl e
      | Inr actual_series \<Rightarrow>
     (case dict_getitem (df reference_ds) column_name of
        Inl e \<Rightarrow> Inl e
      | Inr reference_series \<Rightarrow>
     (case validate_series_notempty actual_series reference_series of
        Inl e \<Rightarrow> Inl e
      | Inr u4 \<Rightarrow> Inr (actual_series, reference_series)))))))"

section \<open>drift.py: messages and the test entry points\<close>

text \<open>
  The text of a message is an f-string. Its literal parts are kept as they are written;
  a float that Python formats into it stays a number, and a threshold that is \<open>None\<close>
  prints as \<open>None\<close>.
\<close>

datatype fstr_part = Lit string | FloatVal npfloat | NoneVal

definition format_threshold :: "real option \<Rightarrow> fstr_part" where
  "format_threshold threshold =
     (case threshold of None \<Rightarrow> NoneVal | Some t \<Rightarrow> FloatVal (Fin t))"

text \<open>
  \<open>TestResult(...)\<close> with the five fields the drift tests pass; the other fields of the
  class keep their defaults, which no drift test reads.
\<close>

definition new_TestResult ::
  "int list \<Rightarrow> int list \<Rightarrow> bool \<Rightarrow> npfloat \<Rightarrow> 'm list option \<Rightarrow> 'm TestResult" where
  "new_TestResult actual_size reference_size passed_value metric_value messages_value =
     \<lparr>passed = passed_value, messages = messages_value, props = [], metric = metric_value,
      missing_count = 0, missing_percent = Fin 0, unexpected_count = 0,
      unexpected_percent = Fin 0, unexpected_percent_total = Fin 0,
      unexpected_percent_nonmissing = Fin 0, partial_unexpected_index_list = [],
      unexpected_index_list = [], output_df = [], number_of_perturbed_rows = 0,
      actual_slices_size = actual_size, reference_slices_size = reference_size\<rparr>"

text \<open>
  \<open>re.match("^other_modalities_[a-z0-9]{32}$", w)\<close>; in Python \<open>$\<close> also matches before a
  final newline.
\<close>

definition matches_other_modalities_pattern :: "string \<Rightarrow> bool" where
  "matches_other_modalities_pattern w =
     (take 17 w = ''other_modalities_''
      \<and> length (take 32 (drop 17 w)) = 32
      \<and> list_all (\<lambda>c. c \<in> set ''abcdefghijklmnopqrstuvwxyz0123456789'') (take 32 (drop 17 w))
      \<and> (drop 49 w = [] \<or> drop 49 w = [CHR 0x0A]))"

text \<open>
  \<open>_generate_message_modalities\<close> reads the column Modality of the data frame under the
  boolean mask; the model passes that column.
\<close>

definition generate_message_modalities ::
  "bool list \<Rightarrow> string list \<Rightarrow> string \<Rightarrow> fstr_part list TestMessage list option" where
  "generate_message_modalities main_drifting_modalities_bool modality_column test_data =
     (let modalities_list =
            map snd (filter fst (zip main_drifting_modalities_bool modality_column));
          filtered_modalities =
            filter (\<lambda>w. \<not> matches_other_modalities_pattern w) modalities_list
      in if filtered_modalities \<noteq> [] then
           Some [\<lparr>pb_type = TestMessageType_ERROR,
                   pb_text = [Lit (''The '' @ test_data
                                @ '' is drifting for the following modalities: ''
                                @ join '','' filtered_modalities)]\<rparr>]
         else None)"

definition generate_message_ks ::
  "bool \<Rightarrow> Ks_2sampResult \<Rightarrow> real option \<Rightarrow> string
     \<Rightarrow> fstr_part list TestMessage list option" where
  "generate_message_ks passed_value result threshold data_type =
     (if \<not> passed_value then
        Some [\<lparr>pb_type = TestMessageType_ERROR,
                pb_text = [Lit (''The '' @ data_type @ '' is drifting (p-value is equal to ''),
                           FloatVal (Fin (np_round (pvalue result) 9)),
                           Lit '' and is below the test risk level '',
                           format_threshold threshold,
                           Lit '') '']\<rparr>]
      else None)"

text \<open>A comparison of a number with \<open>None\<close> raises \<open>TypeError\<close>.\<close>

definition not_supported :: "string \<Rightarrow> py_error" where
  "not_supported operator =
     TypeError (sq @ operator @ sq @ '' not supported between instances of ''
                @ sq @ ''float'' @ sq @ '' and '' @ sq @ ''NoneType'' @ sq)"

definition test_series_drift_psi ::
  "string list \<Rightarrow> string list \<Rightarrow> string \<Rightarrow> int option \<Rightarrow> real \<Rightarrow> real option \<Rightarrow> string
     \<Rightarrow> py_error + (fstr_part list TestMessage list option \<times> bool \<times> npfloat)" where
  "test_series_drift_psi actual_series reference_series test_data max_categories
       psi_contribution_percent threshold uuid_hex =
     (case calculate_drift_psi actual_series reference_series max_categories uuid_hex of
        Inl e \<Rightarrow> Inl e
      | Inr (total_psi, output_data) \<Rightarrow>
          (let passed_value =
                 (case threshold of None \<Rightarrow> True | Some t \<Rightarrow> fle total_psi (Fin t));
               main_drifting_modalities_bool =
                 map (\<lambda>row. fgt (Psi row) (fmul (Fin psi_contribution_percent) total_psi))
                     output_data;
               messages_value =
                 generate_message_modalities main_drifting_modalities_bool
                   (map Modality output_data) test_data
           in Inr (messages_value, passed_value, total_psi)))"

definition test_series_drift_chi ::
  "(npfloat \<Rightarrow> nat \<Rightarrow> npfloat) \<Rightarrow> string list \<Rightarrow> string list \<Rightarrow> string \<Rightarrow> real
     \<Rightarrow> int option \<Rightarrow> real option \<Rightarrow> string
     \<Rightarrow> py_error + (fstr_part list TestMessage list option \<times> npfloat \<times> bool)" where
  "test_series_drift_chi chi2_cdf actual_series reference_series test_data
       chi_square_contribution_percent max_categories threshold uuid_hex =
     (case calculate_chi_square chi2_cdf actual_series reference_series max_categories
             uuid_hex of
        Inl e \<Rightarrow> Inl e
      | Inr (chi_square, p_value, output_data) \<Rightarrow>
          (case threshold of
             None \<Rightarrow> Inl (not_supported ''>'')
           | Some t \<Rightarrow>
               (let passed_value = fgt p_value (Fin t);
                    main_drifting_modalities_bool =
                      map (\<lambda>row. fgt (Chi_square row)
                                   (fmul (Fin chi_square_contribution_percent) chi_square))
                          output_data;
                    messages_value =
                      generate_message_modalities main_drifting_modalities_bool
                        (map chi_Modality output_data) test_data
                in Inr (messages_value, p_value, passed_value))))"

definition test_drift_psi ::
  "string Dataset \<Rightarrow> string Dataset \<Rightarrow> string \<Rightarrow> real option \<Rightarrow> int option \<Rightarrow> real \<Rightarrow> string
     \<Rightarrow> py_error + fstr_part list TestMessage TestResult" where
  "test_drift_psi reference_ds actual_ds column_name threshold max_categories
       psi_contribution_percent uuid_hex =
     (case extract_series actual_ds reference_ds column_name ''category'' of
        Inl e \<Rightarrow> Inl e
      | Inr (actual_series, reference_series) \<Rightarrow>
          (case test_series_drift_psi actual_series reference_series ''data'' max_categories
                  psi_contribution_percent threshold uuid_hex of
             Inl e \<Rightarrow> Inl e
           | Inr (messages_value, passed_value, total_psi) \<Rightarrow>
               Inr (new_TestResult [int (length actual_series)]
                      [int (length reference_series)] passed_value total_psi
                      messages_value)))"

definition test_drift_chi_square ::
  "(npfloat \<Rightarrow> nat \<Rightarrow> npfloat) \<Rightarrow> string Dataset \<Rightarrow> string Dataset \<Rightarrow> string \<Rightarrow> real option
     \<Rightarrow> int option \<Rightarrow> real \<Rightarrow> string \<Rightarrow> py_error + fstr_part list TestMessage TestResult" where
  "test_drift_chi_square chi2_cdf reference_ds actual_ds column_name threshold max_categories
       chi_square_contribution_percent uuid_hex =
     (case extract_series actual_ds reference_ds column_name ''category'' of
        Inl e \<Rightarrow> Inl e
      | Inr (actual_series, reference_series) \<Rightarrow>
          (case test_series_drift_chi chi2_cdf actual_series reference_series ''data''
                  chi_square_contribution_percent max_categories threshold uuid_hex of
             Inl e \<Rightarrow> Inl e
           | Inr (messages_value, p_value, passed_value) \<Rightarrow>
               Inr (new_TestResult [int (length actual_series)]
                      [int (length reference_series)] passed_value p_value
                      messages_value)))"

definition test_drift_ks ::
  "(number list \<Rightarrow> number list \<Rightarrow> py_error + Ks_2sampResult) \<Rightarrow> number Dataset
     \<Rightarrow> number Dataset \<Rightarrow> string \<Rightarrow> real option
     \<Rightarrow> py_error + fstr_part list TestMessage TestResult" where
  "test_drift_ks ks_2samp reference_ds actual_ds column_name threshold =
     (case extract_series actual_ds reference_ds column_name ''numeric'' of
        Inl e \<Rightarrow> Inl e
      | Inr (actual_series, reference_series) \<Rightarrow>
          (case calculate_ks ks_2samp actual_series reference_series of
             Inl e \<Rightarrow> Inl e
           | Inr result \<Rightarrow>
               (case threshold of
                  None \<Rightarrow> Inl (not_supported ''>='')
                | Some t \<Rightarrow>
                    (let passed_value = (t \<le> pvalue result);
                         messages_value =
                           generate_message_ks passed_value result threshold ''data''
                     in Inr (new_TestResult [int (length actual_series)]
                               [int (length reference_series)] passed_value
                               (Fin (pvalue result)) messages_value)))))"

definition test_drift_earth_movers_distance ::
  "(npfloat list \<Rightarrow> npfloat list \<Rightarrow> py_error + npfloat) \<Rightarrow> number Dataset
     \<Rightarrow> number Dataset \<Rightarrow> string \<Rightarrow> real option
     \<Rightarrow> py_error + fstr_part list TestMessage TestResult" where
  "test_drift_earth_movers_distance wasserstein_distance reference_ds actual_ds column_name
       threshold =
     (case extract_series actual_ds reference_ds column_name ''numeric'' of
        Inl e \<Rightarrow> Inl e
      | Inr (actual_series, reference_series) \<Rightarrow>
          (case calculate_earth_movers_distance wasserstein_distance actual_series
                  reference_series of
             Inl e \<Rightarrow> Inl e
           | Inr metric_value \<Rightarrow>
               (case threshold of
                  None \<Rightarrow> Inl (not_supported ''<='')
                | Some t \<Rightarrow>
                    (let passed_value = fle metric_value (Fin t);
                         messages_value =
                           (if \<not> passed_value then
                              Some [\<lparr>pb_type = TestMessageType_ERROR,
                                      pb_text =
                                        [Lit ''The data is drifting (metric is equal to '',
                                         FloatVal (np_round_float metric_value 9),
                                         Lit '' and is below the test risk level '',
                                         format_threshold threshold,
                                         Lit '') '']\<rparr>]
                            else None)
                     in Inr (new_TestResult [int (length actual_series)]
                               [int (length reference_series)]
                               (case threshold of None \<Rightarrow> True | Some t' \<Rightarrow> passed_value)
                               metric_value messages_value)))))"

text \<open>
  The prediction tests call \<open>model.predict\<close>. Their result is paired with the slices
  on which \<open>predict\<close> has been called up to the return or the raise, in order, so that
  what happened before an error is part of the result.
\<close>

definition label_str :: "string option \<Rightarrow> string" where
  "label_str classification_label =
     (case classification_label of None \<Rightarrow> ''None'' | Some l \<Rightarrow> l)"

text \<open>
  The expression
  \<open>model.predict(s).all_predictions[classification_label].values if model.is_classification
  else model.predict(s).prediction\<close>, which both label-selectable tests evaluate on each
  slice. A label that is not a column of \<open>all_predictions\<close> raises \<open>KeyError\<close>.
\<close>

definition selected_prediction ::
  "('v, number) BaseModel \<Rightarrow> 'v Dataset \<Rightarrow> string option \<Rightarrow> py_error + number list" where
  "selected_prediction model slice classification_label =
     (if is_classification model then
        (case classification_label of
           None \<Rightarrow> Inl (KeyError ''None'')
         | Some l \<Rightarrow> dict_getitem (all_predictions (predict model slice)) l)
      else Inr (prediction (predict model slice)))"

definition test_drift_prediction_psi ::
  "string Dataset \<Rightarrow> string Dataset \<Rightarrow> (string, string) BaseModel \<Rightarrow> int option
     \<Rightarrow> real option \<Rightarrow> real \<Rightarrow> string
     \<Rightarrow> string Dataset list \<times> (py_error + fstr_part list TestMessage TestResult)" where
  "test_drift_prediction_psi reference_slice actual_slice model max_categories threshold
       psi_contribution_percent uuid_hex =
     (let prediction_reference = prediction (predict model reference_slice);
          prediction_actual = prediction (predict model actual_slice)
      in ([reference_slice, actual_slice],
          case test_series_drift_psi prediction_actual prediction_reference ''prediction''
                 max_categories psi_contribution_percent threshold uuid_hex of
            Inl e \<Rightarrow> Inl e
          | Inr (messages_value, passed_value, total_psi) \<Rightarrow>
              Inr (new_TestResult [len_Dataset actual_slice] [len_Dataset reference_slice]
                     passed_value total_psi messages_value)))"

definition test_drift_prediction_chi_square ::
  "(npfloat \<Rightarrow> nat \<Rightarrow> npfloat) \<Rightarrow> string Dataset \<Rightarrow> string Dataset
     \<Rightarrow> (string, string) BaseModel \<Rightarrow> int option \<Rightarrow> real option \<Rightarrow> real \<Rightarrow> string
     \<Rightarrow> string Dataset list \<times> (py_error + fstr_part list TestMessage TestResult)" where
  "test_drift_prediction_chi_square chi2_cdf reference_slice actual_slice model
       max_categories threshold chi_square_contribution_percent uuid_hex =
     (let prediction_reference = prediction (predict model reference_slice);
          prediction_actual = prediction (predict model actual_slice)
      in ([reference_slice, actual_slice],
          case test_series_drift_chi chi2_cdf prediction_actual prediction_reference
                 ''prediction'' chi_square_contribution_percent max_categories threshold
                 uuid_hex of
            Inl e \<Rightarrow> Inl e
          | Inr (messages_value, p_value, passed_value) \<Rightarrow>
              Inr (new_TestResult [len_Dataset actual_slice] [len_Dataset reference_slice]
                     passed_value p_value messages_value)))"

definition test_drift_prediction_ks ::
  "(number list \<Rightarrow> number list \<Rightarrow> py_error + Ks_2sampResult) \<Rightarrow> 'v Dataset \<Rightarrow> 'v Dataset
     \<Rightarrow> ('v, number) BaseModel \<Rightarrow> string option \<Rightarrow> real option
     \<Rightarrow> 'v Dataset list \<times> (py_error + fstr_part list TestMessage TestResult)" where
  "test_drift_prediction_ks ks_2samp reference_slice actual_slice model classification_label
       threshold =
     (if model_type model \<noteq> CLASSIFICATION
         \<or> (case classification_label of
               None \<Rightarrow> False
             | Some l \<Rightarrow> l \<in> set (classification_labels model))
      then
        (case selected_prediction model reference_slice classification_label of
           Inl e \<Rightarrow> ([reference_slice], Inl e)
         | Inr prediction_reference \<Rightarrow>
        (case selected_prediction model actual_slice classification_label of
           Inl e \<Rightarrow> ([reference_slice, actual_slice], Inl e)
         | Inr prediction_actual \<Rightarrow>
             ([reference_slice, actual_slice],
              case calculate_ks ks_2samp prediction_reference prediction_actual of
                Inl e \<Rightarrow> Inl e
              | Inr result \<Rightarrow>
                  (let passed_value =
                         (case threshold of None \<Rightarrow> True | Some t \<Rightarrow> t \<le> pvalue result);
                       messages_value =
                         generate_message_ks passed_value result threshold ''prediction''
                   in Inr (new_TestResult [len_Dataset actual_slice]
                             [len_Dataset reference_slice] passed_value
                             (Fin (pvalue result)) messages_value)))))
      else
        ([], Inl (AssertionError (dq @ label_str classification_label @ dq
                    @ '' is not part of model labels: ''
                    @ join '','' (classification_labels model)))))"

definition test_drift_prediction_earth_movers_distance ::
  "(npfloat list \<Rightarrow> npfloat list \<Rightarrow> py_error + npfloat) \<Rightarrow> 'v Dataset \<Rightarrow> 'v Dataset
     \<Rightarrow> ('v, number) BaseModel \<Rightarrow> string option \<Rightarrow> real option
     \<Rightarrow> 'v Dataset list \<times> (py_error + fstr_part list TestMessage TestResult)" where
  "test_drift_prediction_earth_movers_distance wasserstein_distance reference_slice
       actual_slice model classification_label threshold =
     (case selected_prediction model reference_slice classification_label of
        Inl e \<Rightarrow> ([reference_slice], Inl e)
      | Inr prediction_reference \<Rightarrow>
     (case selected_prediction model actual_slice classification_label of
        Inl e \<Rightarrow> ([reference_slice, actual_slice], Inl e)
      | Inr prediction_actual \<Rightarrow>
          ([reference_slice, actual_slice],
           case calculate_earth_movers_distance wasserstein_distance prediction_reference
                  prediction_actual of
             Inl e \<Rightarrow> Inl e
           | Inr metric_value \<Rightarrow>
               (let passed_value =
                      (case threshold of
                         None \<Rightarrow> True
                       | Some t \<Rightarrow> fle metric_value (Fin t));
                    messages_value =
                      (if \<not> passed_value then
                         Some [\<lparr>pb_type = TestMessageType_ERROR,
                                 pb_text =
                                   [Lit ''The prediction is drifting (metric is equal to '',
                                    FloatVal (np_round_float metric_value 9),
                                    Lit '' and is above the test risk level '',
                                    format_threshold threshold,
                                    Lit '') '']\<rparr>]
                       else None)
                in Inr (new_TestResult [len_Dataset actual_slice]
                          [len_Dataset reference_slice]
                          (case threshold of
                             None \<Rightarrow> True
                           | Some t \<Rightarrow> fle metric_value (Fin t))
                          metric_value messages_value)))))"

section \<open>Quantities used to state the properties\<close>

text \<open>
  The keys that \<open>most_common m\<close> keeps of the reference series, the proportions of a list
  of counts, the floor of 0.0001 and the contribution of one category to the PSI, written
  as the specification gives them: \<open>(expected - actual) * ln (expected / actual)\<close> on the
  floored proportions.
\<close>

definition top_keys :: "int \<Rightarrow> 'a list \<Rightarrow> 'a list" where
  "top_keys m xs = map fst (most_common m (Counter xs))"

definition proportions :: "int list \<Rightarrow> nat \<Rightarrow> real list" where
  "proportions frequencies n = map (\<lambda>c. real_of_int c / real n) frequencies"

definition clamp :: "real \<Rightarrow> real" where
  "clamp p = max p (1 / 10000)"

definition psi_term :: "real \<Rightarrow> real \<Rightarrow> real" where
  "psi_term e a = (clamp e - clamp a) * ln (clamp e / clamp a)"

text \<open>The rows that the loop of \<open>calculate_drift_psi\<close> appends for finite proportions.\<close>

definition psi_rows :: "string list \<Rightarrow> real list \<Rightarrow> real list \<Rightarrow> nat \<Rightarrow> psi_row list" where
  "psi_rows all_modalities as es n =
     map (\<lambda>i. \<lparr>Modality = all_modalities ! i, Reference_distribution = Fin (es ! i),
               Actual_distribution = Fin (es ! i), Psi = Fin (psi_term (es ! i) (as ! i))\<rparr>)
         [0..<n]"

text \<open>
  Two series of 10000 values each: 9999 times \<open>a\<close>, and once \<open>b\<close> in the reference series
  but once \<open>c\<close> in the actual series.
\<close>

definition drifted_reference :: "string list" where
  "drifted_reference = replicate 9999 ''a'' @ [''b'']"

definition drifted_actual :: "string list" where
  "drifted_actual = replicate 9999 ''a'' @ [''c'']"

text \<open>A value of \<open>uuid.uuid1().hex\<close>.\<close>

definition sample_uuid_hex :: string where
  "sample_uuid_hex = ''0123456789abcdef0123456789abcdef''"

text \<open>
  Stand-ins for the three scipy functions in the closed examples. The distance is the
  integral of the absolute difference of the two empirical distribution functions; the
  distribution function is the one of the chi-squared distribution with two degrees of
  freedom, \<open>1 - exp (- x / 2)\<close>; the KS stand-in only tells equal samples from different
  ones. scipy rejects an empty sample.
\<close>

fun is_finite :: "npfloat \<Rightarrow> bool" where
  "is_finite (Fin x) = True"
| "is_finite v = False"

fun float_value :: "npfloat \<Rightarrow> real" where
  "float_value (Fin x) = x"
| "float_value v = 0"

definition wasserstein_1d :: "real list \<Rightarrow> real list \<Rightarrow> real" where
  "wasserstein_1d u v =
     (let all_values = sort (u @ v)
      in sum_list
           (map (\<lambda>p. \<bar>real (length (filter (\<lambda>x. x \<le> fst p) u)) / real (length u)
                       - real (length (filter (\<lambda>x. x \<le> fst p) v)) / real (length v)\<bar>
                      * (snd p - fst p))
                (zip all_values (tl all_values))))"

definition sample_wasserstein_distance ::
  "npfloat list \<Rightarrow> npfloat list \<Rightarrow> py_error + npfloat" where
  "sample_wasserstein_distance u v =
     (if u = [] \<or> v = [] then Inl (ValueError ''Distribution can't be empty.'')
      else if list_all is_finite (u @ v) then
        Inr (Fin (wasserstein_1d (map float_value u) (map float_value v)))
      else Inr NaN)"

definition sample_ks_2samp :: "number list \<Rightarrow> number list \<Rightarrow> py_error + Ks_2sampResult" where
  "sample_ks_2samp u v =
     (if u = [] \<or> v = [] then Inl (ValueError ''Data passed to ks_2samp must not be empty'')
      else if sort (map number_value u) = sort (map number_value v)
      then Inr \<lparr>statistic = 0, pvalue = 1\<rparr>
      else Inr \<lparr>statistic = 1, pvalue = 1 / 100\<rparr>)"

definition sample_chi2_cdf :: "npfloat \<Rightarrow> nat \<Rightarrow> npfloat" where
  "sample_chi2_cdf x degrees =
     (case x of
        Fin r \<Rightarrow> if r \<le> 0 then Fin 0 else Fin (1 - exp (- r / 2))
      | PInf \<Rightarrow> Fin 1
      | NInf \<Rightarrow> Fin 0
      | NaN \<Rightarrow> NaN)"

text \<open>
  Datasets and models for the closed examples. The models predict from the columns of the
  slice: the label model returns the column \<open>y\<close> as the predicted labels, the classifier
  returns the column \<open>x\<close> as the probability of label \<open>a\<close> and its complement as the
  probability of label \<open>b\<close>.
\<close>

definition column_values :: "'v Dataset \<Rightarrow> string \<Rightarrow> 'v list" where
  "column_values ds c = (case map_of (df ds) c of None \<Rightarrow> [] | Some xs \<Rightarrow> xs)"

definition float64_series :: "real list \<Rightarrow> number list" where
  "float64_series xs = map (\<lambda>x. F64 (Fin x)) xs"

definition numeric_dataset :: "real list \<Rightarrow> number Dataset" where
  "numeric_dataset xs =
     \<lparr>df = [(''x'', float64_series xs)], feature_types = [(''x'', ''numeric'')]\<rparr>"

definition category_dataset :: "string list \<Rightarrow> string Dataset" where
  "category_dataset ys = \<lparr>df = [(''y'', ys)], feature_types = [(''y'', ''category'')]\<rparr>"

definition sample_label_model :: "(string, string) BaseModel" where
  "sample_label_model =
     \<lparr>model_type = CLASSIFICATION, classification_labels = [''a'', ''b''],
      predict = (\<lambda>ds. \<lparr>prediction = column_values ds ''y'', all_predictions = []\<rparr>)\<rparr>"

definition sample_classifier :: "(number, number) BaseModel" where
  "sample_classifier =
     \<lparr>model_type = CLASSIFICATION, classification_labels = [''a'', ''b''],
      predict = (\<lambda>ds. \<lparr>prediction = column_values ds ''x'',
                         all_predictions =
                           [(''a'', column_values ds ''x''),
                            (''b'', map (\<lambda>p. np_subtract (F64 (Fin 1)) p)
                                        (column_values ds ''x''))]\<rparr>)\<rparr>"

text \<open>
  The counts of one category are in order when neither is negative and one of them is
  positive.
\<close>

definition counts_ok :: "int \<Rightarrow> int \<Rightarrow> bool" where
  "counts_ok a e = (0 \<le> a \<and> 0 \<le> e \<and> (0 < a \<or> 0 < e))"

text \<open>
  The failure message of the KS and Earth-Mover tests: what is drifting, the name of the
  quantity, its value rounded to nine decimals, the stated direction, the threshold.
\<close>

definition drift_failure_message ::
  "string \<Rightarrow> string \<Rightarrow> string \<Rightarrow> npfloat \<Rightarrow> real \<Rightarrow> fstr_part list TestMessage" where
  "drift_failure_message data_type quantity direction v t =
     \<lparr>pb_type = TestMessageType_ERROR,
      pb_text = [Lit (''The '' @ data_type @ '' is drifting ('' @ quantity @ '' is equal to ''),
                 FloatVal (np_round_float v 9),
                 Lit ('' and is '' @ direction @ '' the test risk level ''),
                 FloatVal (Fin t),
                 Lit '') '']\<rparr>"

text \<open>
  The message of the PSI and chi-squared tests, which lists the drifting modalities in one
  literal string.
\<close>

definition modalities_message :: "string \<Rightarrow> string list \<Rightarrow> fstr_part list TestMessage" where
  "modalities_message test_data names =
     \<lparr>pb_type = TestMessageType_ERROR,
      pb_text = [Lit (''The '' @ test_data @ '' is drifting for the following modalities: ''
                      @ join '','' names)]\<rparr>"


fun is_finite_float64 :: "number \<Rightarrow> bool" where
  "is_finite_float64 (F64 (Fin x)) = (\<bar>x\<bar> \<le> max_float64)"
| "is_finite_float64 v = False"









section \<open>The frequency table\<close>

text \<open>
  A \<open>Counter\<close> of a series maps each value to its number of occurrences; the sum of the
  counts over distinct keys is the number of elements of the series among the keys.
\<close>

lemma set_first_seen: "set (first_seen xs) = set xs"
  by (simp add: first_seen_def)

lemma distinct_first_seen: "distinct (first_seen xs)"
  by (simp add: first_seen_def)

lemma counter_getitem_Counter: "counter_getitem (Counter xs) k = int (count_list xs k)"
proof (cases "k \<in> set xs")
  case True
  then have "map_of (Counter xs) k = Some (int (count_list xs k))"
    unfolding Counter_def by (simp add: map_of_map_restrict set_first_seen)
  then show ?thesis by (simp add: counter_getitem_def)
next
  case False
  then have "map_of (Counter xs) k = None"
    unfolding Counter_def by (simp add: map_of_map_restrict set_first_seen)
  with False show ?thesis by (simp add: counter_getitem_def)
qed

lemma sum_count_list_distinct:
  "distinct ks \<Longrightarrow> (\<Sum>k\<leftarrow>ks. int (count_list xs k)) = int (length (filter (\<lambda>x. x \<in> set ks) xs))"
proof (induction xs)
  case Nil
  then show ?case by simp
next
  case (Cons x xs)
  have "(\<Sum>k\<leftarrow>ks. int (count_list (x # xs) k))
        = (\<Sum>k\<leftarrow>ks. int (count_list xs k)) + (\<Sum>k\<leftarrow>ks. if x = k then 1 else 0)"
    by (induction ks) auto
  moreover have "(\<Sum>k\<leftarrow>ks. if x = k then 1 else 0) = (if x \<in> set ks then 1 else (0::int))"
    using Cons.prems by (induction ks) auto
  ultimately show ?case using Cons by simp
qed

lemma sum_count_list_cover:
  "distinct ks \<Longrightarrow> set xs \<subseteq> set ks \<Longrightarrow> (\<Sum>k\<leftarrow>ks. int (count_list xs k)) = int (length xs)"
  by (simp add: sum_count_list_distinct subset_iff)

text \<open>
  \<open>most_common\<close> keeps distinct keys of the reference series, each with its count, and at
  most \<open>m\<close> of them.
\<close>

lemma map_fst_Counter: "map fst (Counter xs) = first_seen xs"
  by (simp add: Counter_def comp_def)

lemma Counter_entry: "(k, v) \<in> set (Counter xs) \<Longrightarrow> k \<in> set xs \<and> v = int (count_list xs k)"
  by (auto simp: Counter_def set_first_seen)

lemma most_common_subset: "set (most_common m c) \<subseteq> set c"
  unfolding most_common_def by (metis set_sort set_take_subset)

lemma distinct_most_common:
  assumes "distinct (map fst c)"
  shows "distinct (map fst (most_common m c))"
proof -
  have "distinct (map fst (sort_key (\<lambda>kv. - snd kv) c))"
    using assms by (simp add: distinct_map)
  then show ?thesis
    unfolding most_common_def by (simp add: take_map[symmetric])
qed

lemma length_most_common: "length (most_common m c) \<le> nat m"
  by (simp add: most_common_def)

lemma distinct_top_keys: "distinct (top_keys m xs)"
  unfolding top_keys_def
  by (rule distinct_most_common) (simp add: map_fst_Counter distinct_first_seen)

lemma set_top_keys: "set (top_keys m xs) \<subseteq> set xs"
  unfolding top_keys_def using most_common_subset[of m "Counter xs"] Counter_entry[of _ _ xs]
  by auto

lemma length_top_keys: "length (top_keys m xs) \<le> nat m"
  by (simp add: top_keys_def length_most_common)

lemma map_snd_most_common:
  "map snd (most_common m (Counter xs)) = map (\<lambda>k. int (count_list xs k)) (top_keys m xs)"
  unfolding top_keys_def using most_common_subset[of m "Counter xs"] Counter_entry[of _ _ xs]
  by (auto simp: subset_iff)

lemma most_common_as_keys:
  "most_common m (Counter xs) = map (\<lambda>k. (k, int (count_list xs k))) (top_keys m xs)"
proof -
  have "map (\<lambda>kv. (fst kv, snd kv)) (most_common m (Counter xs))
        = map (\<lambda>kv. (fst kv, int (count_list xs (fst kv)))) (most_common m (Counter xs))"
    using most_common_subset[of m "Counter xs"] Counter_entry[of _ _ xs]
    by (intro map_cong) (auto simp: subset_iff)
  then show ?thesis by (simp add: top_keys_def comp_def)
qed

text \<open>Assignments to a \<open>dict\<close> and lookups of its own keys.\<close>

lemma dict_setitem_new: "k \<notin> fst ` set d \<Longrightarrow> dict_setitem d k v = d @ [(k, v)]"
  by (induction d) auto

lemma dict_setitem_last:
  "k \<notin> fst ` set d \<Longrightarrow> dict_setitem (d @ [(k, v0)]) k v = d @ [(k, v)]"
  by (induction d) auto

lemma dict_getitems_keys:
  "set ks \<subseteq> fst ` set d \<Longrightarrow> dict_getitems d ks = Inr (map (\<lambda>k. the (map_of d k)) ks)"
proof (induction ks)
  case Nil
  then show ?case by simp
next
  case (Cons k ks)
  then obtain v where "map_of d k = Some v"
    by (metis list.set_intros(1) map_of_eq_None_iff not_Some_eq subsetD)
  with Cons show ?case by (simp add: dict_getitem_def)
qed

lemma dict_getitems_own:
  assumes "distinct (map fst d)"
  shows "dict_getitems d (map fst d) = Inr (map snd d)"
proof -
  have "map (\<lambda>k. the (map_of d k)) (map fst d) = map snd d"
    using assms by (auto simp: comp_def intro!: map_cong)
  then show ?thesis using dict_getitems_keys[of "map fst d" d] by simp
qed

lemma length_filter_not: "int (length xs) - int (length (filter P xs)) = int (length (filter (\<lambda>x. \<not> P x) xs))"
  using sum_length_filter_compl[of P xs] by simp

text \<open>The frequency table in closed form, without and with capping.\<close>

lemma calculate_frequencies_uncapped:
  assumes "\<not> capping_active actual_series reference_series max_categories"
  shows "calculate_frequencies actual_series reference_series max_categories uuid_hex
         = Inr (union_list reference_series actual_series,
                map (\<lambda>k. int (count_list actual_series k)) (union_list reference_series actual_series),
                map (\<lambda>k. int (count_list reference_series k)) (union_list reference_series actual_series))"
  using assms
  by (auto simp: calculate_frequencies_def capping_active_def counter_getitem_Counter Let_def
           split: option.splits)

lemma calculate_frequencies_capped:
  assumes cap: "m < int (length (union_list reference_series actual_series))"
    and fa: "other_modalities_key uuid_hex \<notin> set actual_series"
    and fr: "other_modalities_key uuid_hex \<notin> set reference_series"
  shows "calculate_frequencies actual_series reference_series (Some m) uuid_hex
         = Inr (top_keys m reference_series @ [other_modalities_key uuid_hex],
                map (\<lambda>k. int (count_list actual_series k)) (top_keys m reference_series)
                  @ [int (length (filter (\<lambda>x. x \<notin> set (top_keys m reference_series)) actual_series))],
                map (\<lambda>k. int (count_list reference_series k)) (top_keys m reference_series)
                  @ [int (length (filter (\<lambda>x. x \<notin> set (top_keys m reference_series)) reference_series))])"
proof -
  define tk where "tk = top_keys m reference_series"
  define ok where "ok = other_modalities_key uuid_hex"
  define top where "top = most_common m (Counter reference_series)"
  define eo where "eo = int (length reference_series) - sum_list (map snd top)"
  define ve where "ve = dict_setitem top ok eo"
  define va0 where "va0 = map (\<lambda>i. (i, counter_getitem (Counter actual_series) i)) (map fst ve)"
  define ao where "ao = int (length actual_series) - sum_list (map snd va0)"
  define va where "va = dict_setitem va0 ok ao"
  let ?ca = "\<lambda>k. int (count_list actual_series k)"
  let ?cr = "\<lambda>k. int (count_list reference_series k)"
  have top: "top = map (\<lambda>k. (k, ?cr k)) tk"
    unfolding top_def tk_def by (rule most_common_as_keys)
  have notin: "ok \<notin> set tk"
    using fr set_top_keys[of m reference_series] by (auto simp: ok_def tk_def)
  have d: "distinct tk" unfolding tk_def by (rule distinct_top_keys)
  have eo: "eo = int (length (filter (\<lambda>x. x \<notin> set tk) reference_series))"
    by (simp add: eo_def top comp_def sum_count_list_distinct[OF d] length_filter_not)
  have ve: "ve = map (\<lambda>k. (k, ?cr k)) tk @ [(ok, eo)]"
    unfolding ve_def using notin by (subst dict_setitem_new) (auto simp: top)
  have keys: "map fst ve = tk @ [ok]" by (simp add: ve comp_def)
  have va0: "va0 = map (\<lambda>k. (k, ?ca k)) tk @ [(ok, 0)]"
    using fa by (simp add: va0_def keys counter_getitem_Counter count_list_0_iff ok_def)
  have ao: "ao = int (length (filter (\<lambda>x. x \<notin> set tk) actual_series))"
    by (simp add: ao_def va0 comp_def sum_count_list_distinct[OF d] length_filter_not)
  have va: "va = map (\<lambda>k. (k, ?ca k)) tk @ [(ok, ao)]"
    unfolding va_def va0 using notin by (subst dict_setitem_last) auto
  have dk: "distinct (map fst ve)" using d notin by (simp add: keys)
  have ge: "dict_getitems ve (map fst ve) = Inr (map snd ve)"
    by (rule dict_getitems_own[OF dk])
  have keysa: "map fst va = map fst ve" by (simp add: va keys comp_def)
  have ga: "dict_getitems va (map fst ve) = Inr (map snd va)"
    using dict_getitems_own[of va] dk keysa by simp
  have "calculate_frequencies actual_series reference_series (Some m) uuid_hex
        = (case dict_getitems ve (map fst ve) of
             Inl e \<Rightarrow> Inl e
           | Inr expected_frequencies \<Rightarrow>
              (case dict_getitems va (map fst ve) of
                 Inl e \<Rightarrow> Inl e
               | Inr actual_frequencies \<Rightarrow>
                   Inr (map fst ve, actual_frequencies, expected_frequencies)))"
    by (simp only: calculate_frequencies_def Let_def ve_def va_def va0_def ao_def eo_def
          top_def ok_def option.case cap if_True)
  also have "\<dots> = Inr (map fst ve, map snd va, map snd ve)"
    by (simp add: ge ga)
  also have "map snd va = map ?ca tk @ [ao]" by (simp add: va comp_def)
  also have "map snd ve = map ?cr tk @ [eo]" by (simp add: ve comp_def)
  finally show ?thesis by (simp add: keys ao eo tk_def ok_def)
qed

text \<open>
  Whatever the arguments, \<open>calculate_frequencies\<close> returns: every key it looks up is a key
  of the \<open>dict\<close> it reads.
\<close>

lemma dict_getitems_length: "dict_getitems d ks = Inr vs \<Longrightarrow> length vs = length ks"
  by (induction ks arbitrary: vs) (auto split: sum.splits)

lemma keys_dict_setitem: "x \<in> fst ` set d \<Longrightarrow> x \<in> fst ` set (dict_setitem d k v)"
  by (induction d) force+

lemma map_fst_dict_setitem_superset: "set (map fst d) \<subseteq> fst ` set (dict_setitem d k v)"
  using keys_dict_setitem[of _ d k v] by auto

lemma calculate_frequencies_Inr:
  "\<exists>all_modalities actual_frequencies expected_frequencies.
     calculate_frequencies actual_series reference_series max_categories uuid_hex
       = Inr (all_modalities, actual_frequencies, expected_frequencies)
     \<and> length actual_frequencies = length all_modalities
     \<and> length expected_frequencies = length all_modalities"
proof (cases "capping_active actual_series reference_series max_categories")
  case False
  then show ?thesis by (simp add: calculate_frequencies_uncapped)
next
  case True
  then obtain m where m: "max_categories = Some m"
      "m < int (length (union_list reference_series actual_series))"
    by (auto simp: capping_active_def split: option.splits)
  define ve where "ve = dict_setitem (most_common m (Counter reference_series))
      (other_modalities_key uuid_hex)
      (int (length reference_series) - sum_list (map snd (most_common m (Counter reference_series))))"
  define va0 where "va0 = map (\<lambda>i. (i, counter_getitem (Counter actual_series) i)) (map fst ve)"
  define va where "va = dict_setitem va0 (other_modalities_key uuid_hex)
      (int (length actual_series) - sum_list (map snd va0))"
  have "set (map fst ve) \<subseteq> fst ` set ve" by simp
  then obtain es where es: "dict_getitems ve (map fst ve) = Inr es"
    using dict_getitems_keys by blast
  have "map fst va0 = map fst ve" by (simp add: va0_def comp_def)
  then have "set (map fst ve) \<subseteq> fst ` set va"
    unfolding va_def using map_fst_dict_setitem_superset[of va0] by simp
  then obtain as where as: "dict_getitems va (map fst ve) = Inr as"
    using dict_getitems_keys by blast
  have "calculate_frequencies actual_series reference_series max_categories uuid_hex
        = (case dict_getitems ve (map fst ve) of
             Inl e \<Rightarrow> Inl e
           | Inr expected_frequencies \<Rightarrow>
              (case dict_getitems va (map fst ve) of
                 Inl e \<Rightarrow> Inl e
               | Inr actual_frequencies \<Rightarrow>
                   Inr (map fst ve, actual_frequencies, expected_frequencies)))"
    by (simp only: calculate_frequencies_def Let_def ve_def va_def va0_def m option.case if_True)
  then have "calculate_frequencies actual_series reference_series max_categories uuid_hex
        = Inr (map fst ve, as, es)"
    by (simp add: es as)
  then show ?thesis
    using dict_getitems_length[OF es] dict_getitems_length[OF as] by simp
qed

lemma set_union_list: "set (union_list r a) = set r \<union> set a"
  by (simp add: union_list_def set_first_seen)

lemma distinct_union_list: "distinct (union_list r a)"
  by (simp add: union_list_def distinct_first_seen)

lemma sum_count_top_other:
  assumes "distinct ks"
  shows "sum_list (map (\<lambda>k. int (count_list xs k)) ks @ [int (length (filter (\<lambda>x. x \<notin> set ks) xs))])
         = int (length xs)"
  using sum_count_list_distinct[OF assms, of xs] sum_length_filter_compl[of "\<lambda>x. x \<in> set ks" xs]
  by simp

text \<open>
  C3. Whatever the two series and \<open>max_categories\<close>, provided the generated ``other'' key is
  not a value of either series when capping is active, the frequency table is returned
  (no \<open>KeyError\<close>), the reference counts sum to the length of the reference series, the
  actual counts sum to the length of the actual series, both count lists are aligned with
  the categories, and when capping is active with a non-negative \<open>max_categories\<close> the
  number of categories is at most \<open>max_categories + 1\<close>.
\<close>

theorem calculate_frequencies_sums:
  assumes "capping_active actual_series reference_series max_categories \<Longrightarrow>
             other_modalities_key uuid_hex \<notin> set actual_series \<union> set reference_series"
  shows "\<exists>all_modalities actual_frequencies expected_frequencies.
           calculate_frequencies actual_series reference_series max_categories uuid_hex
             = Inr (all_modalities, actual_frequencies, expected_frequencies)
           \<and> sum_list expected_frequencies = int (length reference_series)
           \<and> sum_list actual_frequencies = int (length actual_series)
           \<and> length actual_frequencies = length all_modalities
           \<and> length expected_frequencies = length all_modalities
           \<and> (\<forall>m. max_categories = Some m
                    \<and> capping_active actual_series reference_series max_categories
                    \<and> 0 \<le> m
                  \<longrightarrow> int (length all_modalities) \<le> m + 1)"
proof (cases "capping_active actual_series reference_series max_categories")
  case False
  have "sum_list (map (\<lambda>k. int (count_list reference_series k))
                    (union_list reference_series actual_series)) = int (length reference_series)"
    by (rule sum_count_list_cover) (simp_all add: distinct_union_list set_union_list)
  moreover have "sum_list (map (\<lambda>k. int (count_list actual_series k))
                    (union_list reference_series actual_series)) = int (length actual_series)"
    by (rule sum_count_list_cover) (simp_all add: distinct_union_list set_union_list)
  ultimately show ?thesis
    using False by (simp add: calculate_frequencies_uncapped)
next
  case True
  then obtain m where m: "max_categories = Some m"
      "m < int (length (union_list reference_series actual_series))"
    by (auto simp: capping_active_def split: option.splits)
  from assms[OF True] have fresh: "other_modalities_key uuid_hex \<notin> set actual_series"
      "other_modalities_key uuid_hex \<notin> set reference_series"
    by simp_all
  have d: "distinct (top_keys m reference_series)" by (rule distinct_top_keys)
  have len: "0 \<le> m \<Longrightarrow> int (length (top_keys m reference_series)) \<le> m"
    using length_top_keys[of m reference_series] by simp
  show ?thesis
    unfolding m(1) calculate_frequencies_capped[OF m(2) fresh]
    using sum_count_top_other[OF d] len by simp
qed

theorem calculate_frequencies_sums_witness:
  "capping_active [''a'', ''b'', ''c'', ''c''] [''b'', ''a'', ''b'', ''d'', ''e''] (Some 2)
   \<and> other_modalities_key sample_uuid_hex
        \<notin> set [''a'', ''b'', ''c'', ''c''] \<union> set [''b'', ''a'', ''b'', ''d'', ''e'']
   \<and> calculate_frequencies [''a'', ''b'', ''c'', ''c''] [''b'', ''a'', ''b'', ''d'', ''e'']
        (Some 2) sample_uuid_hex
      = Inr ([''b'', ''a'', other_modalities_key sample_uuid_hex], [1, 1, 2], [2, 1, 2])
   \<and> sum_list [2, 1, 2] = int (length [''b'', ''a'', ''b'', ''d'', ''e''])
   \<and> sum_list [1, 1, 2] = int (length [''a'', ''b'', ''c'', ''c''])
   \<and> int (length [''b'', ''a'', other_modalities_key sample_uuid_hex]) \<le> 2 + 1"
proof -
  have cap: "capping_active [''a'', ''b'', ''c'', ''c''] [''b'', ''a'', ''b'', ''d'', ''e''] (Some 2)"
    by (simp add: capping_active_def union_list_def first_seen_def)
  have fresh: "other_modalities_key sample_uuid_hex
        \<notin> set [''a'', ''b'', ''c'', ''c''] \<union> set [''b'', ''a'', ''b'', ''d'', ''e'']"
    by (simp add: other_modalities_key_def sample_uuid_hex_def)
  have val: "calculate_frequencies [''a'', ''b'', ''c'', ''c''] [''b'', ''a'', ''b'', ''d'', ''e'']
        (Some 2) sample_uuid_hex
      = Inr ([''b'', ''a'', other_modalities_key sample_uuid_hex], [1, 1, 2], [2, 1, 2])"
    by (simp add: calculate_frequencies_def union_list_def first_seen_def Counter_def
          most_common_def counter_getitem_def dict_getitem_def Let_def
          other_modalities_key_def sample_uuid_hex_def)
  from calculate_frequencies_sums[of "[''a'', ''b'', ''c'', ''c'']"
         "[''b'', ''a'', ''b'', ''d'', ''e'']" "Some 2" sample_uuid_hex] cap fresh
  have "sum_list [2, 1, 2] = int (length [''b'', ''a'', ''b'', ''d'', ''e''])
      \<and> sum_list [1, 1, 2] = int (length [''a'', ''b'', ''c'', ''c''])
      \<and> int (length [''b'', ''a'', other_modalities_key sample_uuid_hex]) \<le> 2 + 1"
    unfolding val by simp
  with cap fresh val show ?thesis by simp
qed

section \<open>The PSI calculator\<close>

text \<open>
  On finite proportions the contribution of a category is \<open>psi_term\<close>, which is never
  negative and is 0 exactly when the floored proportions are equal; the loop adds the
  contributions up.
\<close>

lemma clamp_pos: "0 < clamp p"
  by (simp add: clamp_def max_def)

lemma py_max_Fin: "py_max (Fin x) (Fin (1 / 10000)) = Fin (clamp x)"
  by (simp add: py_max_def fgt_def clamp_def max_def)

lemma calculate_psi_Fin:
  assumes "i < length as" "i < length es"
  shows "calculate_psi i (map Fin as) (map Fin es) = Fin (psi_term (es ! i) (as ! i))"
proof -
  have "0 < clamp (es ! i) / clamp (as ! i)"
    using clamp_pos by simp
  moreover have "clamp (as ! i) \<noteq> 0" using clamp_pos[of "as ! i"] by simp
  moreover have "clamp (es ! i) \<noteq> 0" using clamp_pos[of "es ! i"] by simp
  ultimately show ?thesis
    using assms
    by (simp add: calculate_psi_def Let_def py_max_Fin fsub_def psi_term_def)
qed

lemma psi_term_nonneg: "0 \<le> psi_term e a"
proof -
  have pe: "0 < clamp e" and pa: "0 < clamp a" by (rule clamp_pos)+
  show ?thesis
  proof (cases "clamp a \<le> clamp e")
    case True
    then have "1 \<le> clamp e / clamp a" using pa by simp
    then have "0 \<le> ln (clamp e / clamp a)" by simp
    with True show ?thesis by (simp add: psi_term_def)
  next
    case False
    then have "clamp e / clamp a \<le> 1" using pa by simp
    moreover have "0 < clamp e / clamp a" using pe pa by simp
    ultimately have "ln (clamp e / clamp a) \<le> 0" by simp
    with False show ?thesis by (simp add: psi_term_def mult_nonpos_nonpos)
  qed
qed

lemma psi_term_zero_iff: "psi_term e a = 0 \<longleftrightarrow> clamp e = clamp a"
proof -
  have pe: "0 < clamp e" and pa: "0 < clamp a" by (rule clamp_pos)+
  have "ln (clamp e / clamp a) = 0 \<longleftrightarrow> clamp e = clamp a"
    using pe pa by (simp add: ln_div)
  then show ?thesis by (auto simp: psi_term_def)
qed

lemma fold_drift_psi_step:
  "n \<le> length as \<Longrightarrow> n \<le> length es \<Longrightarrow>
   fold (drift_psi_step all_modalities (map Fin as) (map Fin es)) [0..<n] (Fin t, rows)
   = (Fin (t + (\<Sum>i\<leftarrow>[0..<n]. psi_term (es ! i) (as ! i))),
      rows @ psi_rows all_modalities as es n)"
proof (induction n)
  case 0
  then show ?case by (simp add: psi_rows_def)
next
  case (Suc n)
  then show ?case
    by (simp add: drift_psi_step_def Let_def calculate_psi_Fin psi_rows_def)
qed

lemma sum_upt_map2:
  "length as = length es \<Longrightarrow>
   (\<Sum>i\<leftarrow>[0..<length es]. f (es ! i) (as ! i)) = sum_list (map2 f es as)"
proof -
  assume l: "length as = length es"
  have "map (\<lambda>i. f (es ! i) (as ! i)) [0..<length es] = map2 f es as"
    using l by (intro nth_equalityI) auto
  then show ?thesis by simp
qed

lemma np_true_divide_Fin: "n \<noteq> 0 \<Longrightarrow> np_true_divide c (int n) = Fin (real_of_int c / real n)"
  by (simp add: np_true_divide_def)

lemma calculate_drift_psi_value:
  assumes ne: "actual_series \<noteq> []" "reference_series \<noteq> []"
    and fr: "calculate_frequencies actual_series reference_series max_categories uuid_hex
             = Inr (all_modalities, actual_frequencies, expected_frequencies)"
  shows "calculate_drift_psi actual_series reference_series max_categories uuid_hex
         = Inr (Fin (sum_list (map2 psi_term
                     (proportions expected_frequencies (length reference_series))
                     (proportions actual_frequencies (length actual_series)))),
                psi_rows all_modalities
                     (proportions actual_frequencies (length actual_series))
                     (proportions expected_frequencies (length reference_series))
                     (length all_modalities))"
proof -
  obtain lens: "length actual_frequencies = length all_modalities"
      "length expected_frequencies = length all_modalities"
    using calculate_frequencies_Inr[of actual_series reference_series max_categories uuid_hex] fr
    by auto
  let ?es = "proportions expected_frequencies (length reference_series)"
  let ?as = "proportions actual_frequencies (length actual_series)"
  have e: "map (\<lambda>c. np_true_divide c (int (length reference_series))) expected_frequencies
           = map Fin ?es"
    using ne by (simp add: proportions_def np_true_divide_Fin)
  have a: "map (\<lambda>c. np_true_divide c (int (length actual_series))) actual_frequencies
           = map Fin ?as"
    using ne by (simp add: proportions_def np_true_divide_Fin)
  have l: "length ?as = length all_modalities" "length ?es = length all_modalities"
    using lens by (simp_all add: proportions_def)
  have "calculate_drift_psi actual_series reference_series max_categories uuid_hex
        = Inr (fold (drift_psi_step all_modalities (map Fin ?as) (map Fin ?es))
                 [0..<length all_modalities] (Fin 0, []))"
    by (simp only: calculate_drift_psi_def fr sum.case prod.case Let_def e a)
  also have "\<dots> = Inr (Fin (0 + (\<Sum>i\<leftarrow>[0..<length all_modalities]. psi_term (?es ! i) (?as ! i))),
                    [] @ psi_rows all_modalities ?as ?es (length all_modalities))"
    by (subst fold_drift_psi_step) (simp_all add: l)
  also have "(\<Sum>i\<leftarrow>[0..<length all_modalities]. psi_term (?es ! i) (?as ! i))
             = sum_list (map2 psi_term ?es ?as)"
    using sum_upt_map2[of ?as ?es psi_term] l by simp
  finally show ?thesis by simp
qed

lemma sum_list_map2_psi_nonneg: "0 \<le> sum_list (map2 psi_term es as)"
  by (rule sum_list_nonneg) (auto simp: psi_term_nonneg)

lemma sum_list_map2_psi_zero_iff:
  assumes "length es = length as"
  shows "sum_list (map2 psi_term es as) = 0 \<longleftrightarrow> map clamp es = map clamp as"
proof -
  have "sum_list (map2 psi_term es as) = 0
        \<longleftrightarrow> (\<forall>x\<in>set (map2 psi_term es as). x = 0)"
    by (rule sum_list_nonneg_eq_0_iff) (auto simp: psi_term_nonneg)
  also have "\<dots> \<longleftrightarrow> (\<forall>i<length as. psi_term (es ! i) (as ! i) = 0)"
    using assms by (auto simp: set_conv_nth) 
  also have "\<dots> \<longleftrightarrow> (\<forall>i<length as. clamp (es ! i) = clamp (as ! i))"
    by (simp add: psi_term_zero_iff)
  also have "\<dots> \<longleftrightarrow> map clamp es = map clamp as"
    using assms by (auto simp: list_eq_iff_nth_eq)
  finally show ?thesis .
qed

text \<open>The frequency table and the PSI of the two series of 10000 values.\<close>

lemma remdups_replicate_append:
  "remdups (replicate n x @ ys) = (if n = 0 \<or> x \<in> set ys then remdups ys else x # remdups ys)"
  by (induction n) auto

lemma remdups_replicate_only: "remdups (replicate n x) = (if n = 0 then [] else [x])"
  using remdups_replicate_append[of n x "[]"] by simp

lemma count_list_replicate: "count_list (replicate n x) y = (if x = y then n else 0)"
  by (induction n) auto

lemma drifted_union: "union_list drifted_reference drifted_actual = [''a'', ''b'', ''c'']"
  by (simp add: union_list_def first_seen_def drifted_reference_def drifted_actual_def
        remdups_replicate_append remdups_replicate_only)

lemma drifted_frequencies:
  "calculate_frequencies drifted_actual drifted_reference None uuid_hex
   = Inr ([''a'', ''b'', ''c''], [9999, 0, 1], [9999, 1, 0])"
  by (simp add: calculate_frequencies_uncapped capping_active_def drifted_union)
     (simp add: drifted_reference_def drifted_actual_def count_list_replicate)

lemma psi_term_same: "psi_term x x = 0"
  by (simp add: psi_term_def)

lemma drifted_psi:
  "map_sum id fst (calculate_drift_psi drifted_actual drifted_reference None uuid_hex) = Inr (Fin 0)"
proof -
  have ne: "drifted_actual \<noteq> []" "drifted_reference \<noteq> []"
    by (simp_all add: drifted_reference_def drifted_actual_def)
  have l: "length drifted_actual = 10000" "length drifted_reference = 10000"
    by (simp_all add: drifted_reference_def drifted_actual_def)
  have "psi_term (1 / 10000) 0 = 0" "psi_term 0 (1 / 10000) = 0"
    by (simp_all add: psi_term_def clamp_def)
  then show ?thesis
    by (simp add: calculate_drift_psi_value[OF ne drifted_frequencies] proportions_def l
          psi_term_same)
qed

text \<open>
  C1 (as amended). For two non-empty series the total PSI is a finite number, the sum over
  the categories of \<open>(e - a) * ln (e / a)\<close> on the proportions floored at 0.0001; it is
  \<open>\<ge> 0\<close>; it is 0 exactly when the floored proportions of the two series agree on every
  category; and in particular it is 0 when the two lists of proportions are identical.
\<close>

theorem calculate_drift_psi_nonneg_zero_iff:
  assumes "actual_series \<noteq> []" and "reference_series \<noteq> []"
  shows "\<exists>total_psi output_data all_modalities actual_frequencies expected_frequencies.
           calculate_frequencies actual_series reference_series max_categories uuid_hex
             = Inr (all_modalities, actual_frequencies, expected_frequencies)
           \<and> calculate_drift_psi actual_series reference_series max_categories uuid_hex
             = Inr (Fin total_psi, output_data)
           \<and> total_psi
             = sum_list (map2 psi_term
                 (proportions expected_frequencies (length reference_series))
                 (proportions actual_frequencies (length actual_series)))
           \<and> 0 \<le> total_psi
           \<and> (total_psi = 0 \<longleftrightarrow>
                map clamp (proportions expected_frequencies (length reference_series))
                = map clamp (proportions actual_frequencies (length actual_series)))
           \<and> (proportions expected_frequencies (length reference_series)
                = proportions actual_frequencies (length actual_series)
              \<longrightarrow> total_psi = 0)"
proof -
  obtain all_modalities actual_frequencies expected_frequencies where
    fr: "calculate_frequencies actual_series reference_series max_categories uuid_hex
           = Inr (all_modalities, actual_frequencies, expected_frequencies)"
    and lens: "length actual_frequencies = length all_modalities"
      "length expected_frequencies = length all_modalities"
    using calculate_frequencies_Inr by blast
  let ?es = "proportions expected_frequencies (length reference_series)"
  let ?as = "proportions actual_frequencies (length actual_series)"
  have l: "length ?es = length ?as" using lens by (simp add: proportions_def)
  have z: "sum_list (map2 psi_term ?es ?as) = 0 \<longleftrightarrow> map clamp ?es = map clamp ?as"
    by (rule sum_list_map2_psi_zero_iff[OF l])
  have "?es = ?as \<longrightarrow> sum_list (map2 psi_term ?es ?as) = 0"
    using z by auto
  with fr calculate_drift_psi_value[OF assms fr] sum_list_map2_psi_nonneg[of ?es ?as] z
  show ?thesis by blast
qed

theorem calculate_drift_psi_nonneg_zero_iff_witness:
  "[''a'', ''b''] \<noteq> [] \<and> [''a'', ''a''] \<noteq> []
   \<and> calculate_frequencies [''a'', ''b''] [''a'', ''a''] None sample_uuid_hex
      = Inr ([''a'', ''b''], [1, 1], [2, 0])
   \<and> (\<exists>total_psi output_data.
         calculate_drift_psi [''a'', ''b''] [''a'', ''a''] None sample_uuid_hex
           = Inr (Fin total_psi, output_data)
         \<and> 0 \<le> total_psi \<and> total_psi \<noteq> 0)"
proof -
  have fr: "calculate_frequencies [''a'', ''b''] [''a'', ''a''] None sample_uuid_hex
      = Inr ([''a'', ''b''], [1, 1], [2, 0])"
    by (simp add: calculate_frequencies_def union_list_def first_seen_def Counter_def
          counter_getitem_def)
  have ne: "[''a'', ''b''] \<noteq> []" "[''a'', ''a''] \<noteq> []" by simp_all
  have d: "map clamp (proportions [2, 0] (length [''a'', ''a'']))
           \<noteq> map clamp (proportions [1, 1] (length [''a'', ''b'']))"
    by (simp add: proportions_def clamp_def)
  from calculate_drift_psi_nonneg_zero_iff[OF ne, of None sample_uuid_hex] d
  have "\<exists>total_psi output_data.
         calculate_drift_psi [''a'', ''b''] [''a'', ''a''] None sample_uuid_hex
           = Inr (Fin total_psi, output_data)
         \<and> 0 \<le> total_psi \<and> total_psi \<noteq> 0"
    unfolding fr by auto
  with fr show ?thesis by simp
qed

text \<open>
  C1 as stated fails: the two series of 10000 values below have different frequency
  distributions over the categories \<open>a\<close>, \<open>b\<close>, \<open>c\<close>, yet their total PSI is exactly 0,
  because the proportions 0 and 0.0001 are both floored to 0.0001.
\<close>

theorem psi_zero_with_different_distributions:
  "drifted_actual \<noteq> [] \<and> drifted_reference \<noteq> []
   \<and> map_sum id fst (calculate_drift_psi drifted_actual drifted_reference None sample_uuid_hex)
      = Inr (Fin 0)
   \<and> calculate_frequencies drifted_actual drifted_reference None sample_uuid_hex
      = Inr ([''a'', ''b'', ''c''], [9999, 0, 1], [9999, 1, 0])
   \<and> length drifted_reference = 10000 \<and> length drifted_actual = 10000
   \<and> proportions [9999, 1, 0] 10000 \<noteq> proportions [9999, 0, 1] 10000"
  using drifted_psi[of sample_uuid_hex] drifted_frequencies[of sample_uuid_hex]
  by (simp add: proportions_def) (simp add: drifted_actual_def drifted_reference_def)

text \<open>
  C8. On the reference series \<open>[a]\<close> and the actual series \<open>[b]\<close> the table has the rows
  \<open>a\<close> and \<open>b\<close>; the field Actual\_distribution holds 1 and 0, the reference proportions,
  while the proportions of \<open>a\<close> and \<open>b\<close> in the actual series are 0 and 1.
\<close>

theorem psi_table_actual_column:
  "\<exists>total_psi output_data.
     calculate_drift_psi [''b''] [''a''] None sample_uuid_hex = Inr (total_psi, output_data)
     \<and> map Modality output_data = [''a'', ''b'']
     \<and> map Reference_distribution output_data = [Fin 1, Fin 0]
     \<and> map Actual_distribution output_data = [Fin 1, Fin 0]
     \<and> map (\<lambda>m. np_true_divide (int (count_list [''b''] m)) (int (length [''b''])))
           [''a'', ''b'']
        = [Fin 0, Fin 1]"
  by (simp add: calculate_drift_psi_def calculate_frequencies_def union_list_def
        first_seen_def Counter_def counter_getitem_def np_true_divide_def drift_psi_step_def
        calculate_psi_def py_max_def fgt_def fsub_def upt_rec Let_def)

section \<open>The Earth-Mover calculator and the entry points\<close>











lemma max_float64_ge: "2 ^ 63 \<le> max_float64"
  by (simp add: max_float64_def)


lemma overflow_Fin: "\<bar>x\<bar> \<le> max_float64 \<Longrightarrow> overflow (Fin x) = Fin x"
  by (auto simp: overflow_def)


lemma unit_interval_quotient:
  fixes d D :: real
  assumes "0 \<le> d" "d \<le> D" "0 < D"
  shows "0 \<le> d / D" "d / D \<le> 1"
  using assms by simp_all










lemma small_le_max_float64: "x \<le> 2 ^ 63 \<Longrightarrow> x \<le> max_float64"
  using max_float64_ge by linarith

lemma overflow_small: "\<bar>x\<bar> \<le> 2 ^ 63 \<Longrightarrow> overflow (Fin x) = Fin x"
  by (rule overflow_Fin) (rule small_le_max_float64)

lemma is_finite_float64_small: "\<bar>x\<bar> \<le> 2 ^ 63 \<Longrightarrow> is_finite_float64 (F64 (Fin x))"
  by (simp add: small_le_max_float64)

lemmas number_eval = np_unique_def union_list_def first_seen_def py_max_list_def
  py_min_list_def np_divide_def fsub_def fgt_def





lemma extract_numeric:
  "xs \<noteq> [] \<Longrightarrow> ys \<noteq> [] \<Longrightarrow>
   extract_series (numeric_dataset xs) (numeric_dataset ys) ''x'' ''numeric''
   = Inr (float64_series xs, float64_series ys)"
  by (simp add: extract_series_def validate_column_name_def validate_feature_type_def
        validate_series_notempty_def columns_def numeric_dataset_def dict_getitem_def
        float64_series_def)

lemma extract_category:
  "xs \<noteq> [] \<Longrightarrow> ys \<noteq> [] \<Longrightarrow>
   extract_series (category_dataset xs) (category_dataset ys) ''y'' ''category'' = Inr (xs, ys)"
  by (simp add: extract_series_def validate_column_name_def validate_feature_type_def
        validate_series_notempty_def columns_def category_dataset_def dict_getitem_def)

lemma emd_example:
  "calculate_earth_movers_distance sample_wasserstein_distance (float64_series [1, 3])
     (float64_series [1, 2]) = Inr (Fin (1 / 4))"
  by (simp add: calculate_earth_movers_distance_def float64_series_def number_eval
        overflow_small sample_wasserstein_distance_def wasserstein_1d_def Let_def)

lemma emd_example2:
  "calculate_earth_movers_distance sample_wasserstein_distance (float64_series [1 / 4, 3 / 4])
     (float64_series [1 / 2, 1]) = Inr (Fin (1 / 3))"
  by (simp add: calculate_earth_movers_distance_def float64_series_def number_eval
        overflow_small sample_wasserstein_distance_def wasserstein_1d_def Let_def)

text \<open>
  C7. With the threshold unset the numerical feature Earth-Mover test does not return a
  passing result: whenever the two series are extracted and the calculator returns a
  metric, \<open>metric <= threshold\<close> is evaluated with \<open>threshold = None\<close> and raises
  \<open>TypeError\<close>. (With a threshold, the rule \<open>metric <= threshold\<close> is applied: the witness
  shows a metric of 0.25 passing at threshold 0.5.)
\<close>

theorem test_drift_earth_movers_distance_unset_threshold:
  assumes "extract_series actual_ds reference_ds column_name ''numeric''
             = Inr (actual_series, reference_series)"
    and "calculate_earth_movers_distance wasserstein_distance actual_series reference_series
             = Inr metric_value"
  shows "test_drift_earth_movers_distance wasserstein_distance reference_ds actual_ds
           column_name None = Inl (not_supported ''<='')"
  using assms by (simp add: test_drift_earth_movers_distance_def)

theorem test_drift_earth_movers_distance_unset_threshold_witness:
  "extract_series (numeric_dataset [1, 3]) (numeric_dataset [1, 2]) ''x'' ''numeric''
     = Inr (float64_series [1, 3], float64_series [1, 2])
   \<and> calculate_earth_movers_distance sample_wasserstein_distance (float64_series [1, 3])
        (float64_series [1, 2]) = Inr (Fin (1 / 4))
   \<and> test_drift_earth_movers_distance sample_wasserstein_distance (numeric_dataset [1, 2])
        (numeric_dataset [1, 3]) ''x'' None
      = Inl (not_supported ''<='')
   \<and> map_sum id passed
        (test_drift_earth_movers_distance sample_wasserstein_distance (numeric_dataset [1, 2])
           (numeric_dataset [1, 3]) ''x'' (Some (1 / 2)))
      = Inr True"
proof -
  have e: "extract_series (numeric_dataset [1, 3]) (numeric_dataset [1, 2]) ''x'' ''numeric''
     = Inr (float64_series [1, 3], float64_series [1, 2])"
    by (simp add: extract_numeric)
  have m: "calculate_earth_movers_distance sample_wasserstein_distance (float64_series [1, 3])
        (float64_series [1, 2]) = Inr (Fin (1 / 4))"
    by (rule emd_example)
  have p: "map_sum id passed
        (test_drift_earth_movers_distance sample_wasserstein_distance (numeric_dataset [1, 2])
           (numeric_dataset [1, 3]) ''x'' (Some (1 / 2)))
      = Inr True"
    by (simp add: test_drift_earth_movers_distance_def e m new_TestResult_def)
  show ?thesis
    using test_drift_earth_movers_distance_unset_threshold[OF e m] e m p by simp
qed

text \<open>
  C5. The prediction PSI test on an actual slice with no rows: the model predicts no
  label for it, and the test raises nothing. It calls \<open>predict\<close> on both slices, runs the
  PSI calculator, whose proportions over a length of zero are \<open>nan\<close>, and returns a result
  with \<open>passed = False\<close>, metric \<open>nan\<close> and no message.
\<close>

theorem test_drift_prediction_psi_empty_actual:
  "test_drift_prediction_psi (category_dataset [''a'', ''b'']) (category_dataset [])
     sample_label_model (Some 10) (Some (1 / 5)) (1 / 5) sample_uuid_hex
   = ([category_dataset [''a'', ''b''], category_dataset []],
      Inr (new_TestResult [0] [2] False NaN None))"
  by (simp add: test_drift_prediction_psi_def test_series_drift_psi_def calculate_drift_psi_def
        calculate_frequencies_def union_list_def first_seen_def Counter_def counter_getitem_def
        np_true_divide_def drift_psi_step_def calculate_psi_def py_max_def fgt_def fsub_def
        generate_message_modalities_def sample_label_model_def column_values_def
        category_dataset_def len_Dataset_def upt_rec Let_def)

text \<open>
  C6. The prediction Earth-Mover test on a classifier with the labels \<open>a\<close>, \<open>b\<close> and the
  requested label \<open>c\<close>: there is no check of the label; \<open>predict\<close> is called on the
  reference slice and the lookup of column \<open>c\<close> in its probabilities raises \<open>KeyError\<close>.
\<close>

theorem test_drift_prediction_earth_movers_distance_unknown_label:
  "test_drift_prediction_earth_movers_distance sample_wasserstein_distance
     (numeric_dataset [1 / 4, 3 / 4]) (numeric_dataset [1 / 2, 1]) sample_classifier
     (Some ''c'') (Some (1 / 5))
   = ([numeric_dataset [1 / 4, 3 / 4]], Inl (KeyError ''c''))"
  by (simp add: test_drift_prediction_earth_movers_distance_def selected_prediction_def
        is_classification_def sample_classifier_def dict_getitem_def)

text \<open>
  The prediction KS test on the same input stops at its assertion, before any call of
  \<open>predict\<close>, with a message that names the label.
\<close>

lemma test_drift_prediction_ks_unknown_label:
  "test_drift_prediction_ks sample_ks_2samp
     (numeric_dataset [1 / 4, 3 / 4]) (numeric_dataset [1 / 2, 1]) sample_classifier
     (Some ''c'') (Some (1 / 5))
   = ([], Inl (AssertionError (dq @ ''c'' @ dq @ '' is not part of model labels: a,b'')))"
  by (simp add: test_drift_prediction_ks_def sample_classifier_def label_str_def)

section \<open>The chi-squared calculator\<close>

text \<open>
  For non-empty series no category of the table has both counts 0, so no contribution to
  the statistic is \<open>0 / 0\<close>; a category absent from the reference series contributes
  \<open>+inf\<close>.
\<close>

lemma list_all2_map_same:
  "(\<And>k. k \<in> set ks \<Longrightarrow> P (f k) (g k)) \<Longrightarrow> list_all2 P (map f ks) (map g ks)"
  by (induction ks) auto

lemma count_list_pos: "k \<in> set xs \<Longrightarrow> 0 < count_list xs k"
  using count_list_0_iff[of xs k] by auto

lemma frequencies_counts_ok:
  assumes ne: "actual_series \<noteq> []" "reference_series \<noteq> []"
    and fresh: "capping_active actual_series reference_series max_categories \<Longrightarrow>
             other_modalities_key uuid_hex \<notin> set actual_series \<union> set reference_series"
    and fr: "calculate_frequencies actual_series reference_series max_categories uuid_hex
             = Inr (all_modalities, actual_frequencies, expected_frequencies)"
  shows "list_all2 counts_ok actual_frequencies expected_frequencies
         \<and> length actual_frequencies = length all_modalities"
proof (cases "capping_active actual_series reference_series max_categories")
  case False
  let ?U = "union_list reference_series actual_series"
  have eq: "all_modalities = ?U"
      "actual_frequencies = map (\<lambda>k. int (count_list actual_series k)) ?U"
      "expected_frequencies = map (\<lambda>k. int (count_list reference_series k)) ?U"
    using fr calculate_frequencies_uncapped[OF False, of uuid_hex] by auto
  have "list_all2 counts_ok (map (\<lambda>k. int (count_list actual_series k)) ?U)
          (map (\<lambda>k. int (count_list reference_series k)) ?U)"
  proof (rule list_all2_map_same)
    fix k assume "k \<in> set ?U"
    then have "k \<in> set reference_series \<or> k \<in> set actual_series"
      by (simp add: set_union_list)
    then show "counts_ok (int (count_list actual_series k)) (int (count_list reference_series k))"
      using count_list_pos[of k reference_series] count_list_pos[of k actual_series]
      by (auto simp: counts_ok_def)
  qed
  then show ?thesis by (simp add: eq)
next
  case True
  then obtain m where m: "max_categories = Some m"
      "m < int (length (union_list reference_series actual_series))"
    by (auto simp: capping_active_def split: option.splits)
  from fresh[OF True] have fa: "other_modalities_key uuid_hex \<notin> set actual_series"
    and frr: "other_modalities_key uuid_hex \<notin> set reference_series" by simp_all
  define tk where "tk = top_keys m reference_series"
  let ?ao = "int (length (filter (\<lambda>x. x \<notin> set tk) actual_series))"
  let ?eo = "int (length (filter (\<lambda>x. x \<notin> set tk) reference_series))"
  have eq: "all_modalities = tk @ [other_modalities_key uuid_hex]"
      "actual_frequencies = map (\<lambda>k. int (count_list actual_series k)) tk @ [?ao]"
      "expected_frequencies = map (\<lambda>k. int (count_list reference_series k)) tk @ [?eo]"
    using fr calculate_frequencies_capped[OF m(2) fa frr] by (auto simp: m(1) tk_def)
  have top: "list_all2 counts_ok (map (\<lambda>k. int (count_list actual_series k)) tk)
          (map (\<lambda>k. int (count_list reference_series k)) tk)"
  proof (rule list_all2_map_same)
    fix k assume "k \<in> set tk"
    then have "k \<in> set reference_series"
      using set_top_keys[of m reference_series] by (auto simp: tk_def)
    then show "counts_ok (int (count_list actual_series k)) (int (count_list reference_series k))"
      using count_list_pos[of k reference_series] by (simp add: counts_ok_def)
  qed
  have other: "0 < ?ao \<or> 0 < ?eo"
  proof (rule ccontr)
    assume "\<not> (0 < ?ao \<or> 0 < ?eo)"
    then have "filter (\<lambda>x. x \<notin> set tk) actual_series = []"
        "filter (\<lambda>x. x \<notin> set tk) reference_series = []"
      by simp_all
    then have sub: "set actual_series \<subseteq> set tk" "set reference_series \<subseteq> set tk"
      by (auto simp: filter_empty_conv)
    then have "set (union_list reference_series actual_series) \<subseteq> set tk"
      by (simp add: set_union_list)
    then have "card (set (union_list reference_series actual_series)) \<le> card (set tk)"
      by (intro card_mono) simp_all
    then have "length (union_list reference_series actual_series) \<le> length tk"
      using distinct_card[OF distinct_union_list[of reference_series actual_series]]
        card_length[of tk] by simp
    then have le: "length (union_list reference_series actual_series) \<le> nat m"
      using length_top_keys[of m reference_series] by (simp add: tk_def)
    show False
    proof (cases "0 \<le> m")
      case True
      then show False using le m(2) by simp
    next
      case False
      then have "tk = []" using length_top_keys[of m reference_series] by (simp add: tk_def)
      then show False using sub ne by simp
    qed
  qed
  have "list_all2 counts_ok [?ao] [?eo]" using other by (simp add: counts_ok_def)
  with top show ?thesis
    by (simp add: eq list_all2_appendI)
qed

lemma fle_zero_cases: "fle (Fin 0) x \<longleftrightarrow> x = PInf \<or> (\<exists>r. x = Fin r \<and> 0 \<le> r)"
  by (cases x) auto

lemma chi_square_step_nonneg:
  assumes acc: "fle (Fin 0) acc_total"
    and k: "0 < k"
    and ok: "counts_ok (actual_frequencies ! i) (expected_frequencies ! i)"
  shows "fle (Fin 0) (fst (chi_square_step all_modalities actual_frequencies
            expected_frequencies (Fin k) i (acc_total, rows)))"
proof (cases "expected_frequencies ! i = 0")
  case True
  then have "0 < actual_frequencies ! i" using ok by (simp add: counts_ok_def)
  then have "0 < real_of_int (actual_frequencies ! i) * real_of_int (actual_frequencies ! i)"
    by simp
  then show ?thesis
    using acc True by (auto simp: chi_square_step_def Let_def fsub_def fle_zero_cases)
next
  case False
  then have "0 < expected_frequencies ! i" using ok by (simp add: counts_ok_def)
  then have pos: "0 < real_of_int (expected_frequencies ! i) * k" using k by simp
  then have "0 \<le> (real_of_int (actual_frequencies ! i) - real_of_int (expected_frequencies ! i) * k)
             * (real_of_int (actual_frequencies ! i) - real_of_int (expected_frequencies ! i) * k)
             / (real_of_int (expected_frequencies ! i) * k)"
    by simp
  then show ?thesis
    using acc pos by (auto simp: chi_square_step_def Let_def fsub_def fle_zero_cases)
qed

lemma fold_chi_square_nonneg:
  assumes "0 < k" and "list_all2 counts_ok actual_frequencies expected_frequencies"
  shows "n \<le> length actual_frequencies \<Longrightarrow> fle (Fin 0) (fst acc) \<Longrightarrow>
         fle (Fin 0) (fst (fold (chi_square_step all_modalities actual_frequencies
            expected_frequencies (Fin k)) [0..<n] acc))"
proof (induction n)
  case 0
  then show ?case by simp
next
  case (Suc n)
  then have ih: "fle (Fin 0) (fst (fold (chi_square_step all_modalities actual_frequencies
            expected_frequencies (Fin k)) [0..<n] acc))" by simp
  have ok: "counts_ok (actual_frequencies ! n) (expected_frequencies ! n)"
    using assms(2) Suc.prems(1) by (simp add: list_all2_nthD)
  obtain t rows where tr: "fold (chi_square_step all_modalities actual_frequencies
            expected_frequencies (Fin k)) [0..<n] acc = (t, rows)" by (cases "fold (chi_square_step all_modalities actual_frequencies
            expected_frequencies (Fin k)) [0..<n] acc")
  show ?case
    using chi_square_step_nonneg[OF _ assms(1) ok, of t all_modalities rows] ih
    by (simp add: tr)
qed

text \<open>
  C2. For two non-empty series, with the generated ``other'' key not a value of either
  series when capping is active, and a distribution function \<open>chi2_cdf\<close> that returns a
  number in \<open>[0, 1]\<close> on every argument but \<open>nan\<close>: the calculator returns (it raises
  nothing), the statistic is \<open>\<ge> 0\<close> (a finite number or \<open>+inf\<close>, never \<open>nan\<close>), the p-value
  lies in \<open>[0, 1]\<close>, it is exactly 0 when there is at most one category, and otherwise it
  is \<open>1 - chi2_cdf(chi_square, categories - 1)\<close>, forced to 0 when that value of the
  distribution function is exactly 0.
\<close>

theorem calculate_chi_square_bounds:
  assumes ne: "actual_series \<noteq> []" "reference_series \<noteq> []"
    and fresh: "capping_active actual_series reference_series max_categories \<Longrightarrow>
             other_modalities_key uuid_hex \<notin> set actual_series \<union> set reference_series"
    and cdf: "\<And>x degrees. x \<noteq> NaN \<Longrightarrow> \<exists>c. chi2_cdf x degrees = Fin c \<and> 0 \<le> c \<and> c \<le> 1"
  shows "\<exists>chi_square p_value output_data all_modalities actual_frequencies
            expected_frequencies.
           calculate_frequencies actual_series reference_series max_categories uuid_hex
             = Inr (all_modalities, actual_frequencies, expected_frequencies)
           \<and> calculate_chi_square chi2_cdf actual_series reference_series max_categories
               uuid_hex = Inr (chi_square, p_value, output_data)
           \<and> fle (Fin 0) chi_square
           \<and> fle (Fin 0) p_value \<and> fle p_value (Fin 1)
           \<and> (length all_modalities \<le> 1 \<longrightarrow> p_value = Fin 0)
           \<and> (1 < length all_modalities \<longrightarrow>
                p_value
                = (if chi2_cdf chi_square (length all_modalities - 1) = Fin 0 then Fin 0
                   else fsub (Fin 1) (chi2_cdf chi_square (length all_modalities - 1))))"
proof -
  obtain all_modalities actual_frequencies expected_frequencies where
    fr: "calculate_frequencies actual_series reference_series max_categories uuid_hex
           = Inr (all_modalities, actual_frequencies, expected_frequencies)"
    using calculate_frequencies_Inr by blast
  have ok: "list_all2 counts_ok actual_frequencies expected_frequencies"
    and len: "length actual_frequencies = length all_modalities"
    using frequencies_counts_ok[OF ne fresh fr] by simp_all
  define k where "k = real (length actual_series) / real (length reference_series)"
  have k: "0 < k" using ne by (simp add: k_def)
  define loop where "loop = fold (chi_square_step all_modalities actual_frequencies
      expected_frequencies (Fin k)) [0..<length all_modalities] (Fin 0, [])"
  define p where "p = (if 1 < length all_modalities then
                      (let chi_cdf = chi2_cdf (fst loop) (length all_modalities - 1)
                       in if chi_cdf \<noteq> Fin 0 then fsub (Fin 1) chi_cdf else Fin 0)
                    else Fin 0)"
  have chi: "fle (Fin 0) (fst loop)"
    unfolding loop_def by (rule fold_chi_square_nonneg[OF k ok]) (simp_all add: len)
  then have "fst loop \<noteq> NaN" by auto
  then obtain c where c: "chi2_cdf (fst loop) (length all_modalities - 1) = Fin c"
      "0 \<le> c" "c \<le> 1"
    using cdf by blast
  have res: "calculate_chi_square chi2_cdf actual_series reference_series max_categories
               uuid_hex = Inr (fst loop, p, snd loop)"
    using ne by (simp add: calculate_chi_square_def fr Let_def loop_def p_def k_def)
  have pb: "fle (Fin 0) p \<and> fle p (Fin 1)"
    using c by (simp add: p_def Let_def fsub_def)
  have p1: "length all_modalities \<le> 1 \<longrightarrow> p = Fin 0" by (simp add: p_def)
  have p2: "1 < length all_modalities \<longrightarrow>
        p = (if chi2_cdf (fst loop) (length all_modalities - 1) = Fin 0 then Fin 0
             else fsub (Fin 1) (chi2_cdf (fst loop) (length all_modalities - 1)))"
    by (simp add: p_def Let_def)
  show ?thesis using fr res chi pb p1 p2 by blast
qed

lemma sample_chi2_cdf_range:
  "x \<noteq> NaN \<Longrightarrow> \<exists>c. sample_chi2_cdf x degrees = Fin c \<and> 0 \<le> c \<and> c \<le> 1"
  by (cases x) (auto simp: sample_chi2_cdf_def)

theorem calculate_chi_square_bounds_witness:
  "[''a'', ''b'', ''c'', ''c''] \<noteq> [] \<and> [''b'', ''a'', ''b'', ''d'', ''e''] \<noteq> []
   \<and> capping_active [''a'', ''b'', ''c'', ''c''] [''b'', ''a'', ''b'', ''d'', ''e''] (Some 2)
   \<and> other_modalities_key sample_uuid_hex
        \<notin> set [''a'', ''b'', ''c'', ''c''] \<union> set [''b'', ''a'', ''b'', ''d'', ''e'']
   \<and> calculate_chi_square sample_chi2_cdf [''a'', ''b'', ''c'', ''c'']
         [''b'', ''a'', ''b'', ''d'', ''e''] (Some 2) sample_uuid_hex
      = Inr (Fin (3 / 8), Fin (exp (- (3 / 16))),
          [\<lparr>chi_Modality = ''b'', Reference_frequencies = 2, Actual_frequencies = 1,
             Chi_square = Fin (9 / 40)\<rparr>,
           \<lparr>chi_Modality = ''a'', Reference_frequencies = 1, Actual_frequencies = 1,
             Chi_square = Fin (1 / 20)\<rparr>,
           \<lparr>chi_Modality = other_modalities_key sample_uuid_hex, Reference_frequencies = 2,
             Actual_frequencies = 2, Chi_square = Fin (1 / 10)\<rparr>])
   \<and> fle (Fin 0) (Fin (3 / 8))
   \<and> fle (Fin 0) (Fin (exp (- (3 / 16)))) \<and> fle (Fin (exp (- (3 / 16)))) (Fin 1)"
proof -
  have ne: "[''a'', ''b'', ''c'', ''c''] \<noteq> []" "[''b'', ''a'', ''b'', ''d'', ''e''] \<noteq> []"
    by simp_all
  have cap: "capping_active [''a'', ''b'', ''c'', ''c''] [''b'', ''a'', ''b'', ''d'', ''e''] (Some 2)"
    by (simp add: capping_active_def union_list_def first_seen_def)
  have fresh: "other_modalities_key sample_uuid_hex
        \<notin> set [''a'', ''b'', ''c'', ''c''] \<union> set [''b'', ''a'', ''b'', ''d'', ''e'']"
    by (simp add: other_modalities_key_def sample_uuid_hex_def)
  have fr: "calculate_frequencies [''a'', ''b'', ''c'', ''c'']
        [''b'', ''a'', ''b'', ''d'', ''e''] (Some 2) sample_uuid_hex
      = Inr ([''b'', ''a'', other_modalities_key sample_uuid_hex], [1, 1, 2], [2, 1, 2])"
    by (simp add: calculate_frequencies_def union_list_def first_seen_def Counter_def
          most_common_def counter_getitem_def dict_getitem_def Let_def
          other_modalities_key_def sample_uuid_hex_def)
  have v: "calculate_chi_square sample_chi2_cdf [''a'', ''b'', ''c'', ''c'']
         [''b'', ''a'', ''b'', ''d'', ''e''] (Some 2) sample_uuid_hex
      = Inr (Fin (3 / 8), Fin (exp (- (3 / 16))),
          [\<lparr>chi_Modality = ''b'', Reference_frequencies = 2, Actual_frequencies = 1,
             Chi_square = Fin (9 / 40)\<rparr>,
           \<lparr>chi_Modality = ''a'', Reference_frequencies = 1, Actual_frequencies = 1,
             Chi_square = Fin (1 / 20)\<rparr>,
           \<lparr>chi_Modality = other_modalities_key sample_uuid_hex, Reference_frequencies = 2,
             Actual_frequencies = 2, Chi_square = Fin (1 / 10)\<rparr>])"
    by (simp add: calculate_chi_square_def fr chi_square_step_def fsub_def
          sample_chi2_cdf_def upt_rec Let_def)
  from calculate_chi_square_bounds[OF ne fresh sample_chi2_cdf_range]
  have "fle (Fin 0) (Fin (3 / 8))
   \<and> fle (Fin 0) (Fin (exp (- (3 / 16)))) \<and> fle (Fin (exp (- (3 / 16)))) (Fin 1)"
    unfolding v by auto
  with ne cap fresh v show ?thesis by simp
qed

section \<open>The messages of the tests\<close>

lemma generate_message_ks_failed:
  "generate_message_ks False result (Some t) data_type
   = Some [drift_failure_message data_type ''p-value'' ''below'' (Fin (pvalue result)) t]"
  by (simp add: generate_message_ks_def drift_failure_message_def format_threshold_def
        np_round_float_def)

lemma test_drift_ks_failed:
  assumes "test_drift_ks ks_2samp reference_ds actual_ds column_name threshold = Inr res"
    and "\<not> passed res"
  shows "\<exists>t p. threshold = Some t \<and> metric res = Fin p \<and> p < t
           \<and> messages res
              = Some [drift_failure_message ''data'' ''p-value'' ''below'' (Fin p) t]"
  using assms
  by (auto simp: test_drift_ks_def Let_def new_TestResult_def generate_message_ks_failed
           split: sum.splits prod.splits option.splits)

lemma test_drift_prediction_ks_failed:
  assumes "snd (test_drift_prediction_ks ks_2samp reference_slice actual_slice model
                  classification_label threshold) = Inr res"
    and "\<not> passed res"
  shows "\<exists>t p. threshold = Some t \<and> metric res = Fin p \<and> p < t
           \<and> messages res
              = Some [drift_failure_message ''prediction'' ''p-value'' ''below'' (Fin p) t]"
  using assms
  by (auto simp: test_drift_prediction_ks_def Let_def new_TestResult_def
                 generate_message_ks_failed
           split: sum.splits prod.splits option.splits if_splits)

lemma test_drift_prediction_earth_movers_distance_failed:
  assumes "snd (test_drift_prediction_earth_movers_distance wasserstein_distance
                  reference_slice actual_slice model classification_label threshold) = Inr res"
    and "\<not> passed res"
  shows "\<exists>t. threshold = Some t \<and> \<not> fle (metric res) (Fin t)
           \<and> messages res
              = Some [drift_failure_message ''prediction'' ''metric'' ''above'' (metric res) t]"
  using assms
  by (auto simp: test_drift_prediction_earth_movers_distance_def Let_def new_TestResult_def
                 drift_failure_message_def format_threshold_def
           split: sum.splits prod.splits option.splits if_splits)

lemma test_drift_earth_movers_distance_failed:
  assumes "test_drift_earth_movers_distance wasserstein_distance reference_ds actual_ds
             column_name threshold = Inr res"
    and "\<not> passed res"
  shows "\<exists>t direction. threshold = Some t \<and> \<not> fle (metric res) (Fin t)
           \<and> messages res
              = Some [drift_failure_message ''data'' ''metric'' direction (metric res) t]"
proof -
  from assms obtain t where
    "threshold = Some t \<and> \<not> fle (metric res) (Fin t)
       \<and> messages res
          = Some [drift_failure_message ''data'' ''metric'' ''below'' (metric res) t]"
    by (auto simp: test_drift_earth_movers_distance_def Let_def new_TestResult_def
                 drift_failure_message_def format_threshold_def
           split: sum.splits prod.splits option.splits if_splits)
  then show ?thesis by blast
qed

text \<open>
  The PSI and chi-squared tests: whatever they report is a list of modalities, and it
  does not depend on the threshold.
\<close>

lemma generate_message_modalities_shape:
  "generate_message_modalities flags modality_column test_data = None
   \<or> (\<exists>names. generate_message_modalities flags modality_column test_data
                 = Some [modalities_message test_data names])"
  by (auto simp: generate_message_modalities_def modalities_message_def Let_def)

lemma test_series_drift_psi_messages:
  assumes "test_series_drift_psi actual_series reference_series test_data max_categories
             psi_contribution_percent threshold uuid_hex = Inr (ms, p, total_psi)"
  shows "(ms = None \<or> (\<exists>names. ms = Some [modalities_message test_data names]))
       \<and> (\<forall>threshold' ms' p' total_psi'.
             test_series_drift_psi actual_series reference_series test_data max_categories
               psi_contribution_percent threshold' uuid_hex = Inr (ms', p', total_psi')
             \<longrightarrow> ms' = ms)"
  using assms
    generate_message_modalities_shape
  by (auto simp: test_series_drift_psi_def Let_def split: sum.splits prod.splits)

lemma test_series_drift_chi_messages:
  assumes "test_series_drift_chi chi2_cdf actual_series reference_series test_data
             chi_square_contribution_percent max_categories threshold uuid_hex
           = Inr (ms, p_value, p)"
  shows "(ms = None \<or> (\<exists>names. ms = Some [modalities_message test_data names]))
       \<and> (\<forall>threshold' ms' p_value' p'.
             test_series_drift_chi chi2_cdf actual_series reference_series test_data
               chi_square_contribution_percent max_categories threshold' uuid_hex
             = Inr (ms', p_value', p')
             \<longrightarrow> ms' = ms)"
  using assms
    generate_message_modalities_shape
  by (auto simp: test_series_drift_chi_def Let_def split: sum.splits prod.splits option.splits)

lemma test_drift_psi_messages:
  assumes "test_drift_psi reference_ds actual_ds column_name threshold max_categories
             psi_contribution_percent uuid_hex = Inr res"
  shows "(messages res = None
          \<or> (\<exists>names. messages res = Some [modalities_message ''data'' names]))
       \<and> (\<forall>threshold' res'.
             test_drift_psi reference_ds actual_ds column_name threshold' max_categories
               psi_contribution_percent uuid_hex = Inr res'
             \<longrightarrow> messages res' = messages res)"
proof -
  from assms obtain actual_series reference_series ms p total_psi where
    e: "extract_series actual_ds reference_ds column_name ''category''
          = Inr (actual_series, reference_series)"
    and s: "test_series_drift_psi actual_series reference_series ''data'' max_categories
              psi_contribution_percent threshold uuid_hex = Inr (ms, p, total_psi)"
    and m: "messages res = ms"
    by (auto simp: test_drift_psi_def new_TestResult_def split: sum.splits prod.splits)
  note k = test_series_drift_psi_messages[OF s]
  have "\<forall>threshold' res'.
             test_drift_psi reference_ds actual_ds column_name threshold' max_categories
               psi_contribution_percent uuid_hex = Inr res'
             \<longrightarrow> messages res' = ms"
    using e k
    by (auto simp: test_drift_psi_def new_TestResult_def split: sum.splits prod.splits)
  with k m show ?thesis by simp
qed

lemma test_drift_chi_square_messages:
  assumes "test_drift_chi_square chi2_cdf reference_ds actual_ds column_name threshold
             max_categories chi_square_contribution_percent uuid_hex = Inr res"
  shows "(messages res = None
          \<or> (\<exists>names. messages res = Some [modalities_message ''data'' names]))
       \<and> (\<forall>threshold' res'.
             test_drift_chi_square chi2_cdf reference_ds actual_ds column_name threshold'
               max_categories chi_square_contribution_percent uuid_hex = Inr res'
             \<longrightarrow> messages res' = messages res)"
proof -
  from assms obtain actual_series reference_series ms p_value p where
    e: "extract_series actual_ds reference_ds column_name ''category''
          = Inr (actual_series, reference_series)"
    and s: "test_series_drift_chi chi2_cdf actual_series reference_series ''data''
              chi_square_contribution_percent max_categories threshold uuid_hex
            = Inr (ms, p_value, p)"
    and m: "messages res = ms"
    by (auto simp: test_drift_chi_square_def new_TestResult_def
             split: sum.splits prod.splits)
  note k = test_series_drift_chi_messages[OF s]
  have "\<forall>threshold' res'.
             test_drift_chi_square chi2_cdf reference_ds actual_ds column_name threshold'
               max_categories chi_square_contribution_percent uuid_hex = Inr res'
             \<longrightarrow> messages res' = ms"
    using e k
    by (auto simp: test_drift_chi_square_def new_TestResult_def
             split: sum.splits prod.splits)
  with k m show ?thesis by simp
qed

lemma test_drift_prediction_psi_messages:
  assumes "snd (test_drift_prediction_psi reference_slice actual_slice model max_categories
                  threshold psi_contribution_percent uuid_hex) = Inr res"
  shows "(messages res = None
          \<or> (\<exists>names. messages res = Some [modalities_message ''prediction'' names]))
       \<and> (\<forall>threshold' res'.
             snd (test_drift_prediction_psi reference_slice actual_slice model max_categories
                    threshold' psi_contribution_percent uuid_hex) = Inr res'
             \<longrightarrow> messages res' = messages res)"
proof -
  from assms obtain ms p total_psi where
    s: "test_series_drift_psi (prediction (predict model actual_slice))
              (prediction (predict model reference_slice)) ''prediction'' max_categories
              psi_contribution_percent threshold uuid_hex = Inr (ms, p, total_psi)"
    and m: "messages res = ms"
    by (auto simp: test_drift_prediction_psi_def Let_def new_TestResult_def
             split: sum.splits prod.splits)
  note k = test_series_drift_psi_messages[OF s]
  have "\<forall>threshold' res'.
             snd (test_drift_prediction_psi reference_slice actual_slice model max_categories
                    threshold' psi_contribution_percent uuid_hex) = Inr res'
             \<longrightarrow> messages res' = ms"
    using k
    by (auto simp: test_drift_prediction_psi_def Let_def new_TestResult_def
             split: sum.splits prod.splits)
  with k m show ?thesis by simp
qed

lemma test_drift_prediction_chi_square_messages:
  assumes "snd (test_drift_prediction_chi_square chi2_cdf reference_slice actual_slice model
                  max_categories threshold chi_square_contribution_percent uuid_hex)
           = Inr res"
  shows "(messages res = None
          \<or> (\<exists>names. messages res = Some [modalities_message ''prediction'' names]))
       \<and> (\<forall>threshold' res'.
             snd (test_drift_prediction_chi_square chi2_cdf reference_slice actual_slice
                    model max_categories threshold' chi_square_contribution_percent uuid_hex)
             = Inr res'
             \<longrightarrow> messages res' = messages res)"
proof -
  from assms obtain ms p_value p where
    s: "test_series_drift_chi chi2_cdf (prediction (predict model actual_slice))
              (prediction (predict model reference_slice)) ''prediction''
              chi_square_contribution_percent max_categories threshold uuid_hex
            = Inr (ms, p_value, p)"
    and m: "messages res = ms"
    by (auto simp: test_drift_prediction_chi_square_def Let_def new_TestResult_def
             split: sum.splits prod.splits)
  note k = test_series_drift_chi_messages[OF s]
  have "\<forall>threshold' res'.
             snd (test_drift_prediction_chi_square chi2_cdf reference_slice actual_slice
                    model max_categories threshold' chi_square_contribution_percent uuid_hex)
             = Inr res'
             \<longrightarrow> messages res' = ms"
    using k
    by (auto simp: test_drift_prediction_chi_square_def Let_def new_TestResult_def
             split: sum.splits prod.splits)
  with k m show ?thesis by simp
qed

text \<open>The tests on concrete datasets.\<close>

lemma length_float64_series: "length (float64_series xs) = length xs"
  by (simp add: float64_series_def)

lemma feature_emd_fails:
  "test_drift_earth_movers_distance sample_wasserstein_distance (numeric_dataset [1, 2])
     (numeric_dataset [1, 3]) ''x'' (Some (1 / 10))
   = Inr (new_TestResult [2] [2] False (Fin (1 / 4))
            (Some [drift_failure_message ''data'' ''metric'' ''below'' (Fin (1 / 4))
                     (1 / 10)]))"
  by (simp add: test_drift_earth_movers_distance_def extract_numeric emd_example
        drift_failure_message_def format_threshold_def length_float64_series)

lemma feature_ks_fails:
  "test_drift_ks sample_ks_2samp (numeric_dataset [1, 2]) (numeric_dataset [1, 3]) ''x''
     (Some (1 / 20))
   = Inr (new_TestResult [2] [2] False (Fin (1 / 100))
            (Some [drift_failure_message ''data'' ''p-value'' ''below'' (Fin (1 / 100))
                     (1 / 20)]))"
  by (simp add: test_drift_ks_def extract_numeric calculate_ks_def sample_ks_2samp_def
        generate_message_ks_failed length_float64_series float64_series_def)

lemma sample_classifier_prediction:
  "selected_prediction sample_classifier (numeric_dataset xs) (Some ''a'')
   = Inr (float64_series xs)"
  by (simp add: selected_prediction_def is_classification_def sample_classifier_def
        dict_getitem_def column_values_def numeric_dataset_def)

lemma prediction_ks_fails:
  "test_drift_prediction_ks sample_ks_2samp (numeric_dataset [1 / 4, 3 / 4])
     (numeric_dataset [1 / 2, 1]) sample_classifier (Some ''a'') (Some (1 / 20))
   = ([numeric_dataset [1 / 4, 3 / 4], numeric_dataset [1 / 2, 1]],
      Inr (new_TestResult [2] [2] False (Fin (1 / 100))
            (Some [drift_failure_message ''prediction'' ''p-value'' ''below''
                     (Fin (1 / 100)) (1 / 20)])))"
proof -
  have k: "calculate_ks sample_ks_2samp (float64_series [1 / 4, 3 / 4])
             (float64_series [1 / 2, 1]) = Inr \<lparr>statistic = 1, pvalue = 1 / 100\<rparr>"
    by (simp add: calculate_ks_def sample_ks_2samp_def float64_series_def)
  have c: "model_type sample_classifier = CLASSIFICATION"
    "classification_labels sample_classifier = [''a'', ''b'']"
    by (simp_all add: sample_classifier_def)
  show ?thesis
    by (simp add: test_drift_prediction_ks_def sample_classifier_prediction k c
          generate_message_ks_failed)
       (simp add: numeric_dataset_def len_Dataset_def float64_series_def)
qed

lemma prediction_emd_fails:
  "test_drift_prediction_earth_movers_distance sample_wasserstein_distance
     (numeric_dataset [1 / 4, 3 / 4]) (numeric_dataset [1 / 2, 1]) sample_classifier
     (Some ''a'') (Some (1 / 5))
   = ([numeric_dataset [1 / 4, 3 / 4], numeric_dataset [1 / 2, 1]],
      Inr (new_TestResult [2] [2] False (Fin (1 / 3))
            (Some [drift_failure_message ''prediction'' ''metric'' ''above'' (Fin (1 / 3))
                     (1 / 5)])))"
  by (simp add: test_drift_prediction_earth_movers_distance_def sample_classifier_prediction
        emd_example2 drift_failure_message_def format_threshold_def)
     (simp add: numeric_dataset_def len_Dataset_def float64_series_def)

lemma psi_example:
  "calculate_drift_psi [''b''] [''a''] (Some 20) sample_uuid_hex
   = Inr (Fin (9999 * ln 10000 / 5000),
          [\<lparr>Modality = ''a'', Reference_distribution = Fin 1, Actual_distribution = Fin 1,
             Psi = Fin (9999 * ln 10000 / 10000)\<rparr>,
           \<lparr>Modality = ''b'', Reference_distribution = Fin 0, Actual_distribution = Fin 0,
             Psi = Fin (9999 * ln 10000 / 10000)\<rparr>])"
proof -
  have "ln (1 / 10000 :: real) = - ln 10000" by (simp add: ln_div)
  then show ?thesis
    by (simp add: calculate_drift_psi_def calculate_frequencies_def union_list_def
        first_seen_def Counter_def counter_getitem_def np_true_divide_def drift_psi_step_def
        calculate_psi_def py_max_def fgt_def fsub_def upt_rec Let_def)
qed

lemma ln_10000_gt_1: "1 < ln (10000 :: real)"
proof -
  have "exp 1 \<le> (3 :: real)" by (rule exp_le)
  then have "ln (exp 1) \<le> ln (3 :: real)" by (subst ln_le_cancel_iff) simp_all
  then have "1 \<le> ln (3 :: real)" by simp
  moreover have "ln (3 :: real) < ln 10000" by simp
  ultimately show ?thesis by linarith
qed

lemma ln_10000_less: "ln (10000 :: real) < 10000"
  by (rule ln_less_self) simp

lemma series_psi_example:
  "test_series_drift_psi [''b''] [''a''] test_data (Some 20) (1 / 5) (Some t) sample_uuid_hex
   = Inr (Some [modalities_message test_data [''a'', ''b'']],
          9999 * ln 10000 / 5000 \<le> t, Fin (9999 * ln 10000 / 5000))"
proof -
  have b: "9999 * ln 10000 / 5000 / 5 < 9999 * ln (10000 :: real) / 10000"
    using ln_10000_gt_1 by simp
  have np: "\<not> matches_other_modalities_pattern ''a''" "\<not> matches_other_modalities_pattern ''b''"
    by (simp_all add: matches_other_modalities_pattern_def)
  show ?thesis
    using b
    by (simp add: test_series_drift_psi_def psi_example fgt_def
          generate_message_modalities_def modalities_message_def np)
qed

lemma psi_fails: "\<not> (9999 * ln 10000 / 5000 \<le> (1 / 5 :: real))"
  using ln_10000_gt_1 by simp

lemma psi_passes: "9999 * ln 10000 / 5000 \<le> (20000 :: real)"
  using ln_10000_less by linarith

lemma feature_psi_fails:
  "test_drift_psi (category_dataset [''a'']) (category_dataset [''b'']) ''y''
     (Some (1 / 5)) (Some 20) (1 / 5) sample_uuid_hex
   = Inr (new_TestResult [1] [1] False (Fin (9999 * ln 10000 / 5000))
            (Some [modalities_message ''data'' [''a'', ''b'']]))"
  using psi_fails by (simp add: test_drift_psi_def extract_category series_psi_example)

lemma feature_psi_passes:
  "test_drift_psi (category_dataset [''a'']) (category_dataset [''b'']) ''y''
     (Some 20000) (Some 20) (1 / 5) sample_uuid_hex
   = Inr (new_TestResult [1] [1] True (Fin (9999 * ln 10000 / 5000))
            (Some [modalities_message ''data'' [''a'', ''b'']]))"
  using psi_passes by (simp add: test_drift_psi_def extract_category series_psi_example)

lemma sample_label_model_prediction:
  "prediction (predict sample_label_model (category_dataset ys)) = ys"
  by (simp add: sample_label_model_def column_values_def category_dataset_def)

lemma len_category_dataset: "len_Dataset (category_dataset [y]) = 1"
  by (simp add: len_Dataset_def category_dataset_def)

lemma prediction_psi_fails:
  "test_drift_prediction_psi (category_dataset [''a'']) (category_dataset [''b''])
     sample_label_model (Some 20) (Some (1 / 5)) (1 / 5) sample_uuid_hex
   = ([category_dataset [''a''], category_dataset [''b'']],
      Inr (new_TestResult [1] [1] False (Fin (9999 * ln 10000 / 5000))
            (Some [modalities_message ''prediction'' [''a'', ''b'']])))"
  using psi_fails
  by (simp add: test_drift_prediction_psi_def sample_label_model_prediction
        series_psi_example len_category_dataset)

lemma prediction_psi_passes:
  "test_drift_prediction_psi (category_dataset [''a'']) (category_dataset [''b''])
     sample_label_model (Some 20) (Some 20000) (1 / 5) sample_uuid_hex
   = ([category_dataset [''a''], category_dataset [''b'']],
      Inr (new_TestResult [1] [1] True (Fin (9999 * ln 10000 / 5000))
            (Some [modalities_message ''prediction'' [''a'', ''b'']])))"
  using psi_passes
  by (simp add: test_drift_prediction_psi_def sample_label_model_prediction
        series_psi_example len_category_dataset)

lemma chi_example:
  "calculate_chi_square sample_chi2_cdf [''b''] [''a''] (Some 20) sample_uuid_hex
   = Inr (PInf, Fin 0,
          [\<lparr>chi_Modality = ''a'', Reference_frequencies = 1, Actual_frequencies = 0,
             Chi_square = Fin 1\<rparr>,
           \<lparr>chi_Modality = ''b'', Reference_frequencies = 0, Actual_frequencies = 1,
             Chi_square = PInf\<rparr>])"
  by (simp add: calculate_chi_square_def calculate_frequencies_def union_list_def
        first_seen_def Counter_def counter_getitem_def chi_square_step_def fsub_def
        sample_chi2_cdf_def upt_rec Let_def)

lemma series_chi_example:
  "test_series_drift_chi sample_chi2_cdf [''b''] [''a''] test_data (1 / 5) (Some 20) (Some t)
     sample_uuid_hex
   = Inr (None, Fin 0, t < 0)"
  by (simp add: test_series_drift_chi_def chi_example fgt_def
        generate_message_modalities_def)

lemma feature_chi_fails:
  "test_drift_chi_square sample_chi2_cdf (category_dataset [''a'']) (category_dataset [''b''])
     ''y'' (Some (1 / 20)) (Some 20) (1 / 5) sample_uuid_hex
   = Inr (new_TestResult [1] [1] False (Fin 0) None)"
  by (simp add: test_drift_chi_square_def extract_category series_chi_example)

lemma feature_chi_passes:
  "test_drift_chi_square sample_chi2_cdf (category_dataset [''a'']) (category_dataset [''b''])
     ''y'' (Some (- 1)) (Some 20) (1 / 5) sample_uuid_hex
   = Inr (new_TestResult [1] [1] True (Fin 0) None)"
  by (simp add: test_drift_chi_square_def extract_category series_chi_example)

lemma prediction_chi_fails:
  "test_drift_prediction_chi_square sample_chi2_cdf (category_dataset [''a''])
     (category_dataset [''b'']) sample_label_model (Some 20) (Some (1 / 20)) (1 / 5)
     sample_uuid_hex
   = ([category_dataset [''a''], category_dataset [''b'']],
      Inr (new_TestResult [1] [1] False (Fin 0) None))"
  by (simp add: test_drift_prediction_chi_square_def sample_label_model_prediction
        series_chi_example len_category_dataset)

lemma prediction_chi_passes:
  "test_drift_prediction_chi_square sample_chi2_cdf (category_dataset [''a''])
     (category_dataset [''b'']) sample_label_model (Some 20) (Some (- 1)) (1 / 5)
     sample_uuid_hex
   = ([category_dataset [''a''], category_dataset [''b'']],
      Inr (new_TestResult [1] [1] True (Fin 0) None))"
  by (simp add: test_drift_prediction_chi_square_def sample_label_model_prediction
        series_chi_example len_category_dataset)

text \<open>
  C9 (as amended). Whenever the feature KS test, the prediction KS test, the prediction
  Earth-Mover test or the feature Earth-Mover test returns a failed result, a threshold is
  set and the result carries exactly one ERROR message, which reports the metric rounded
  to nine decimals and the threshold. The KS messages say that the p-value is below the
  risk level, and the p-value is below the threshold. The prediction Earth-Mover message
  says that the metric is above the risk level, and the comparison \<open>metric <= threshold\<close>
  is false. For the feature Earth-Mover test the comparison \<open>metric <= threshold\<close> is
  false as well, and the direction stated by its message is left open. Whenever the
  feature or prediction PSI test or the feature or prediction chi-squared test returns a
  result, failed or not, the result carries either no message or exactly one ERROR message
  that lists modalities of the data (of the prediction, for the prediction tests) and
  reports neither the metric nor the threshold; and the same test on the same inputs with
  any other threshold returns, if it returns a result, the same messages.
\<close>

theorem failed_test_messages:
  "(test_drift_ks ks_2samp reference_ds actual_ds column_name threshold = Inr res
      \<and> \<not> passed res
    \<longrightarrow> (\<exists>t p. threshold = Some t \<and> metric res = Fin p \<and> p < t
           \<and> messages res
              = Some [drift_failure_message ''data'' ''p-value'' ''below'' (Fin p) t]))
   \<and> (snd (test_drift_prediction_ks ks_2samp reference_slice actual_slice model
              classification_label threshold) = Inr res
      \<and> \<not> passed res
    \<longrightarrow> (\<exists>t p. threshold = Some t \<and> metric res = Fin p \<and> p < t
           \<and> messages res
              = Some [drift_failure_message ''prediction'' ''p-value'' ''below'' (Fin p) t]))
   \<and> (snd (test_drift_prediction_earth_movers_distance wasserstein_distance
              reference_slice actual_slice model classification_label threshold) = Inr res
      \<and> \<not> passed res
    \<longrightarrow> (\<exists>t. threshold = Some t \<and> \<not> fle (metric res) (Fin t)
           \<and> messages res
              = Some [drift_failure_message ''prediction'' ''metric'' ''above''
                        (metric res) t]))
   \<and> (test_drift_earth_movers_distance wasserstein_distance reference_ds actual_ds
          column_name threshold = Inr res
      \<and> \<not> passed res
    \<longrightarrow> (\<exists>t direction. threshold = Some t \<and> \<not> fle (metric res) (Fin t)
           \<and> messages res
              = Some [drift_failure_message ''data'' ''metric'' direction (metric res) t]))
   \<and> (test_drift_psi reference_cat_ds actual_cat_ds column_name threshold max_categories
          contribution_percent uuid_hex = Inr res
    \<longrightarrow> (messages res = None
          \<or> (\<exists>names. messages res = Some [modalities_message ''data'' names]))
       \<and> (\<forall>threshold' res'.
             test_drift_psi reference_cat_ds actual_cat_ds column_name threshold'
               max_categories contribution_percent uuid_hex = Inr res'
             \<longrightarrow> messages res' = messages res))
   \<and> (test_drift_chi_square chi2_cdf reference_cat_ds actual_cat_ds column_name threshold
          max_categories contribution_percent uuid_hex = Inr res
    \<longrightarrow> (messages res = None
          \<or> (\<exists>names. messages res = Some [modalities_message ''data'' names]))
       \<and> (\<forall>threshold' res'.
             test_drift_chi_square chi2_cdf reference_cat_ds actual_cat_ds column_name
               threshold' max_categories contribution_percent uuid_hex = Inr res'
             \<longrightarrow> messages res' = messages res))
   \<and> (snd (test_drift_prediction_psi reference_cat_slice actual_cat_slice label_model
              max_categories threshold contribution_percent uuid_hex) = Inr res
    \<longrightarrow> (messages res = None
          \<or> (\<exists>names. messages res = Some [modalities_message ''prediction'' names]))
       \<and> (\<forall>threshold' res'.
             snd (test_drift_prediction_psi reference_cat_slice actual_cat_slice label_model
                    max_categories threshold' contribution_percent uuid_hex) = Inr res'
             \<longrightarrow> messages res' = messages res))
   \<and> (snd (test_drift_prediction_chi_square chi2_cdf reference_cat_slice actual_cat_slice
              label_model max_categories threshold contribution_percent uuid_hex) = Inr res
    \<longrightarrow> (messages res = None
          \<or> (\<exists>names. messages res = Some [modalities_message ''prediction'' names]))
       \<and> (\<forall>threshold' res'.
             snd (test_drift_prediction_chi_square chi2_cdf reference_cat_slice
                    actual_cat_slice label_model max_categories threshold'
                    contribution_percent uuid_hex) = Inr res'
             \<longrightarrow> messages res' = messages res))"
proof (intro conjI)
  show "test_drift_ks ks_2samp reference_ds actual_ds column_name threshold = Inr res
      \<and> \<not> passed res
    \<longrightarrow> (\<exists>t p. threshold = Some t \<and> metric res = Fin p \<and> p < t
           \<and> messages res
              = Some [drift_failure_message ''data'' ''p-value'' ''below'' (Fin p) t])"
    using test_drift_ks_failed by blast
next
  show "snd (test_drift_prediction_ks ks_2samp reference_slice actual_slice model
              classification_label threshold) = Inr res
      \<and> \<not> passed res
    \<longrightarrow> (\<exists>t p. threshold = Some t \<and> metric res = Fin p \<and> p < t
           \<and> messages res
              = Some [drift_failure_message ''prediction'' ''p-value'' ''below'' (Fin p) t])"
    using test_drift_prediction_ks_failed by blast
next
  show "snd (test_drift_prediction_earth_movers_distance wasserstein_distance
              reference_slice actual_slice model classification_label threshold) = Inr res
      \<and> \<not> passed res
    \<longrightarrow> (\<exists>t. threshold = Some t \<and> \<not> fle (metric res) (Fin t)
           \<and> messages res
              = Some [drift_failure_message ''prediction'' ''metric'' ''above''
                        (metric res) t])"
    using test_drift_prediction_earth_movers_distance_failed by blast
next
  show "test_drift_earth_movers_distance wasserstein_distance reference_ds actual_ds
          column_name threshold = Inr res
      \<and> \<not> passed res
    \<longrightarrow> (\<exists>t direction. threshold = Some t \<and> \<not> fle (metric res) (Fin t)
           \<and> messages res
              = Some [drift_failure_message ''data'' ''metric'' direction (metric res) t])"
    using test_drift_earth_movers_distance_failed by blast
next
  show "test_drift_psi reference_cat_ds actual_cat_ds column_name threshold max_categories
          contribution_percent uuid_hex = Inr res
    \<longrightarrow> (messages res = None
          \<or> (\<exists>names. messages res = Some [modalities_message ''data'' names]))
       \<and> (\<forall>threshold' res'.
             test_drift_psi reference_cat_ds actual_cat_ds column_name threshold'
               max_categories contribution_percent uuid_hex = Inr res'
             \<longrightarrow> messages res' = messages res)"
    by (rule impI) (rule test_drift_psi_messages)
next
  show "test_drift_chi_square chi2_cdf reference_cat_ds actual_cat_ds column_name threshold
          max_categories contribution_percent uuid_hex = Inr res
    \<longrightarrow> (messages res = None
          \<or> (\<exists>names. messages res = Some [modalities_message ''data'' names]))
       \<and> (\<forall>threshold' res'.
             test_drift_chi_square chi2_cdf reference_cat_ds actual_cat_ds column_name
               threshold' max_categories contribution_percent uuid_hex = Inr res'
             \<longrightarrow> messages res' = messages res)"
    by (rule impI) (rule test_drift_chi_square_messages)
next
  show "snd (test_drift_prediction_psi reference_cat_slice actual_cat_slice label_model
              max_categories threshold contribution_percent uuid_hex) = Inr res
    \<longrightarrow> (messages res = None
          \<or> (\<exists>names. messages res = Some [modalities_message ''prediction'' names]))
       \<and> (\<forall>threshold' res'.
             snd (test_drift_prediction_psi reference_cat_slice actual_cat_slice label_model
                    max_categories threshold' contribution_percent uuid_hex) = Inr res'
             \<longrightarrow> messages res' = messages res)"
    by (rule impI) (rule test_drift_prediction_psi_messages)
next
  show "snd (test_drift_prediction_chi_square chi2_cdf reference_cat_slice actual_cat_slice
              label_model max_categories threshold contribution_percent uuid_hex) = Inr res
    \<longrightarrow> (messages res = None
          \<or> (\<exists>names. messages res = Some [modalities_message ''prediction'' names]))
       \<and> (\<forall>threshold' res'.
             snd (test_drift_prediction_chi_square chi2_cdf reference_cat_slice
                    actual_cat_slice label_model max_categories threshold'
                    contribution_percent uuid_hex) = Inr res'
             \<longrightarrow> messages res' = messages res)"
    by (rule impI) (rule test_drift_prediction_chi_square_messages)
qed

theorem failed_test_messages_witness:
  "test_drift_ks sample_ks_2samp (numeric_dataset [1, 2]) (numeric_dataset [1, 3]) ''x''
     (Some (1 / 20))
     = Inr (new_TestResult [2] [2] False (Fin (1 / 100))
              (Some [drift_failure_message ''data'' ''p-value'' ''below'' (Fin (1 / 100))
                       (1 / 20)]))
   \<and> snd (test_drift_prediction_ks sample_ks_2samp (numeric_dataset [1 / 4, 3 / 4])
            (numeric_dataset [1 / 2, 1]) sample_classifier (Some ''a'') (Some (1 / 20)))
     = Inr (new_TestResult [2] [2] False (Fin (1 / 100))
              (Some [drift_failure_message ''prediction'' ''p-value'' ''below''
                       (Fin (1 / 100)) (1 / 20)]))
   \<and> snd (test_drift_prediction_earth_movers_distance sample_wasserstein_distance
            (numeric_dataset [1 / 4, 3 / 4]) (numeric_dataset [1 / 2, 1]) sample_classifier
            (Some ''a'') (Some (1 / 5)))
     = Inr (new_TestResult [2] [2] False (Fin (1 / 3))
              (Some [drift_failure_message ''prediction'' ''metric'' ''above''
                       (Fin (1 / 3)) (1 / 5)]))
   \<and> test_drift_earth_movers_distance sample_wasserstein_distance
        (numeric_dataset [1, 2]) (numeric_dataset [1, 3]) ''x'' (Some (1 / 10))
     = Inr (new_TestResult [2] [2] False (Fin (1 / 4))
              (Some [drift_failure_message ''data'' ''metric'' ''below'' (Fin (1 / 4))
                       (1 / 10)]))
   \<and> test_drift_psi (category_dataset [''a'']) (category_dataset [''b'']) ''y''
        (Some (1 / 5)) (Some 20) (1 / 5) sample_uuid_hex
     = Inr (new_TestResult [1] [1] False (Fin (9999 * ln 10000 / 5000))
              (Some [modalities_message ''data'' [''a'', ''b'']]))
   \<and> test_drift_psi (category_dataset [''a'']) (category_dataset [''b'']) ''y''
        (Some 20000) (Some 20) (1 / 5) sample_uuid_hex
     = Inr (new_TestResult [1] [1] True (Fin (9999 * ln 10000 / 5000))
              (Some [modalities_message ''data'' [''a'', ''b'']]))
   \<and> test_drift_chi_square sample_chi2_cdf (category_dataset [''a''])
        (category_dataset [''b'']) ''y'' (Some (1 / 20)) (Some 20) (1 / 5) sample_uuid_hex
     = Inr (new_TestResult [1] [1] False (Fin 0) None)
   \<and> test_drift_chi_square sample_chi2_cdf (category_dataset [''a''])
        (category_dataset [''b'']) ''y'' (Some (- 1)) (Some 20) (1 / 5) sample_uuid_hex
     = Inr (new_TestResult [1] [1] True (Fin 0) None)
   \<and> snd (test_drift_prediction_psi (category_dataset [''a'']) (category_dataset [''b''])
            sample_label_model (Some 20) (Some (1 / 5)) (1 / 5) sample_uuid_hex)
     = Inr (new_TestResult [1] [1] False (Fin (9999 * ln 10000 / 5000))
              (Some [modalities_message ''prediction'' [''a'', ''b'']]))
   \<and> snd (test_drift_prediction_psi (category_dataset [''a'']) (category_dataset [''b''])
            sample_label_model (Some 20) (Some 20000) (1 / 5) sample_uuid_hex)
     = Inr (new_TestResult [1] [1] True (Fin (9999 * ln 10000 / 5000))
              (Some [modalities_message ''prediction'' [''a'', ''b'']]))
   \<and> snd (test_drift_prediction_chi_square sample_chi2_cdf (category_dataset [''a''])
            (category_dataset [''b'']) sample_label_model (Some 20) (Some (1 / 20)) (1 / 5)
            sample_uuid_hex)
     = Inr (new_TestResult [1] [1] False (Fin 0) None)
   \<and> snd (test_drift_prediction_chi_square sample_chi2_cdf (category_dataset [''a''])
            (category_dataset [''b'']) sample_label_model (Some 20) (Some (- 1)) (1 / 5)
            sample_uuid_hex)
     = Inr (new_TestResult [1] [1] True (Fin 0) None)
   \<and> (1 / 100 :: real) < 1 / 20
   \<and> \<not> fle (Fin (1 / 3)) (Fin (1 / 5)) \<and> \<not> fle (Fin (1 / 4)) (Fin (1 / 10))"
proof -
  let ?r1 = "new_TestResult [2] [2] False (Fin (1 / 100))
              (Some [drift_failure_message ''data'' ''p-value'' ''below'' (Fin (1 / 100))
                       (1 / 20)])"
  let ?r2 = "new_TestResult [2] [2] False (Fin (1 / 100))
              (Some [drift_failure_message ''prediction'' ''p-value'' ''below''
                       (Fin (1 / 100)) (1 / 20)])"
  let ?r3 = "new_TestResult [2] [2] False (Fin (1 / 3))
              (Some [drift_failure_message ''prediction'' ''metric'' ''above''
                       (Fin (1 / 3)) (1 / 5)])"
  let ?r4 = "new_TestResult [2] [2] False (Fin (1 / 4))
              (Some [drift_failure_message ''data'' ''metric'' ''below'' (Fin (1 / 4))
                       (1 / 10)])"
  let ?r5 = "new_TestResult [1] [1] False (Fin (9999 * ln 10000 / 5000))
              (Some [modalities_message ''data'' [''a'', ''b'']])"
  let ?r6 = "new_TestResult [1] [1] False (Fin 0)
              (None :: fstr_part list TestMessage list option)"
  let ?r7 = "new_TestResult [1] [1] False (Fin (9999 * ln 10000 / 5000))
              (Some [modalities_message ''prediction'' [''a'', ''b'']])"
  have e1: "test_drift_ks sample_ks_2samp (numeric_dataset [1, 2]) (numeric_dataset [1, 3])
              ''x'' (Some (1 / 20)) = Inr ?r1"
    by (rule feature_ks_fails)
  have e2: "snd (test_drift_prediction_ks sample_ks_2samp (numeric_dataset [1 / 4, 3 / 4])
            (numeric_dataset [1 / 2, 1]) sample_classifier (Some ''a'') (Some (1 / 20)))
            = Inr ?r2"
    by (simp add: prediction_ks_fails)
  have e3: "snd (test_drift_prediction_earth_movers_distance sample_wasserstein_distance
            (numeric_dataset [1 / 4, 3 / 4]) (numeric_dataset [1 / 2, 1]) sample_classifier
            (Some ''a'') (Some (1 / 5))) = Inr ?r3"
    by (simp add: prediction_emd_fails)
  have e4: "test_drift_earth_movers_distance sample_wasserstein_distance
           (numeric_dataset [1, 2]) (numeric_dataset [1, 3]) ''x'' (Some (1 / 10)) = Inr ?r4"
    by (rule feature_emd_fails)
  have e5: "test_drift_psi (category_dataset [''a'']) (category_dataset [''b'']) ''y''
        (Some (1 / 5)) (Some 20) (1 / 5) sample_uuid_hex = Inr ?r5"
    by (rule feature_psi_fails)
  have e6: "test_drift_chi_square sample_chi2_cdf (category_dataset [''a''])
        (category_dataset [''b'']) ''y'' (Some (1 / 20)) (Some 20) (1 / 5) sample_uuid_hex
        = Inr ?r6"
    by (rule feature_chi_fails)
  have e7: "snd (test_drift_prediction_psi (category_dataset [''a''])
            (category_dataset [''b'']) sample_label_model (Some 20) (Some (1 / 5)) (1 / 5)
            sample_uuid_hex) = Inr ?r7"
    by (simp add: prediction_psi_fails)
  have e8: "snd (test_drift_prediction_chi_square sample_chi2_cdf (category_dataset [''a''])
            (category_dataset [''b'']) sample_label_model (Some 20) (Some (1 / 20)) (1 / 5)
            sample_uuid_hex) = Inr ?r6"
    by (simp add: prediction_chi_fails)
  have np: "\<not> passed ?r1" "\<not> passed ?r2" "\<not> passed ?r3" "\<not> passed ?r4"
    by (simp_all add: new_TestResult_def)
  have "\<exists>t p. Some (1 / 20 :: real) = Some t \<and> metric ?r1 = Fin p \<and> p < t
           \<and> messages ?r1
              = Some [drift_failure_message ''data'' ''p-value'' ''below'' (Fin p) t]"
    using failed_test_messages
         [where ks_2samp = sample_ks_2samp and reference_ds = "numeric_dataset [1, 2]"
            and actual_ds = "numeric_dataset [1, 3]" and column_name = "''x''"
            and threshold = "Some (1 / 20)" and res = ?r1, THEN conjunct1] e1 np(1)
    by (rule_tac mp) simp_all
  then have c1: "(1 / 100 :: real) < 1 / 20"
    by (auto simp: new_TestResult_def)
  have "\<exists>t p. Some (1 / 20 :: real) = Some t \<and> metric ?r2 = Fin p \<and> p < t
           \<and> messages ?r2
              = Some [drift_failure_message ''prediction'' ''p-value'' ''below'' (Fin p) t]"
    using failed_test_messages
         [where ks_2samp = sample_ks_2samp and reference_slice = "numeric_dataset [1 / 4, 3 / 4]"
            and actual_slice = "numeric_dataset [1 / 2, 1]" and model = sample_classifier
            and classification_label = "Some ''a''"
            and threshold = "Some (1 / 20)" and res = ?r2,
          THEN conjunct2, THEN conjunct1] e2 np(2)
    by (rule_tac mp) simp_all
  then have c2: "(1 / 100 :: real) < 1 / 20"
    by (auto simp: new_TestResult_def)
  have "\<exists>t. Some (1 / 5 :: real) = Some t \<and> \<not> fle (metric ?r3) (Fin t)
           \<and> messages ?r3
              = Some [drift_failure_message ''prediction'' ''metric'' ''above''
                        (metric ?r3) t]"
    using failed_test_messages
         [where wasserstein_distance = sample_wasserstein_distance
            and reference_slice = "numeric_dataset [1 / 4, 3 / 4]"
            and actual_slice = "numeric_dataset [1 / 2, 1]" and model = sample_classifier
            and classification_label = "Some ''a''"
            and threshold = "Some (1 / 5)" and res = ?r3,
          THEN conjunct2, THEN conjunct2, THEN conjunct1] e3 np(3)
    by (rule_tac mp) simp_all
  then have c3: "\<not> fle (Fin (1 / 3)) (Fin (1 / 5))"
    by (auto simp: new_TestResult_def)
  have "\<exists>t direction. Some (1 / 10 :: real) = Some t \<and> \<not> fle (metric ?r4) (Fin t)
           \<and> messages ?r4
              = Some [drift_failure_message ''data'' ''metric'' direction (metric ?r4) t]"
    using failed_test_messages
         [where wasserstein_distance = sample_wasserstein_distance
            and reference_ds = "numeric_dataset [1, 2]"
            and actual_ds = "numeric_dataset [1, 3]" and column_name = "''x''"
            and threshold = "Some (1 / 10)" and res = ?r4,
          THEN conjunct2, THEN conjunct2, THEN conjunct2, THEN conjunct1] e4 np(4)
    by (rule_tac mp) simp_all
  then have c4: "\<not> fle (Fin (1 / 4)) (Fin (1 / 10))"
    by (auto simp: new_TestResult_def)
  have "\<forall>threshold' res'.
          test_drift_psi (category_dataset [''a'']) (category_dataset [''b'']) ''y''
            threshold' (Some 20) (1 / 5) sample_uuid_hex = Inr res'
          \<longrightarrow> messages res' = messages ?r5"
    using failed_test_messages
         [where reference_cat_ds = "category_dataset [''a'']"
            and actual_cat_ds = "category_dataset [''b'']" and column_name = "''y''"
            and threshold = "Some (1 / 5)" and max_categories = "Some 20"
            and contribution_percent = "1 / 5" and uuid_hex = sample_uuid_hex and res = ?r5,
          THEN conjunct2, THEN conjunct2, THEN conjunct2, THEN conjunct2, THEN conjunct1,
          THEN mp, OF e5]
    by (rule conjunct2)
  then have c5: "messages (new_TestResult [1] [1] True (Fin (9999 * ln 10000 / 5000))
                   (Some [modalities_message ''data'' [''a'', ''b'']])) = messages ?r5"
    using feature_psi_passes by blast
  have "\<forall>threshold' res'.
          test_drift_chi_square sample_chi2_cdf (category_dataset [''a''])
            (category_dataset [''b'']) ''y'' threshold' (Some 20) (1 / 5) sample_uuid_hex
          = Inr res'
          \<longrightarrow> messages res' = messages ?r6"
    using failed_test_messages
         [where chi2_cdf = sample_chi2_cdf and reference_cat_ds = "category_dataset [''a'']"
            and actual_cat_ds = "category_dataset [''b'']" and column_name = "''y''"
            and threshold = "Some (1 / 20)" and max_categories = "Some 20"
            and contribution_percent = "1 / 5" and uuid_hex = sample_uuid_hex and res = ?r6,
          THEN conjunct2, THEN conjunct2, THEN conjunct2, THEN conjunct2, THEN conjunct2,
          THEN conjunct1, THEN mp, OF e6]
    by (rule conjunct2)
  then have c6: "messages (new_TestResult [1] [1] True (Fin 0)
                   (None :: fstr_part list TestMessage list option)) = messages ?r6"
    using feature_chi_passes by blast
  have "\<forall>threshold' res'.
          snd (test_drift_prediction_psi (category_dataset [''a''])
                 (category_dataset [''b'']) sample_label_model (Some 20) threshold' (1 / 5)
                 sample_uuid_hex) = Inr res'
          \<longrightarrow> messages res' = messages ?r7"
    using failed_test_messages
         [where reference_cat_slice = "category_dataset [''a'']"
            and actual_cat_slice = "category_dataset [''b'']"
            and label_model = sample_label_model
            and threshold = "Some (1 / 5)" and max_categories = "Some 20"
            and contribution_percent = "1 / 5" and uuid_hex = sample_uuid_hex and res = ?r7,
          THEN conjunct2, THEN conjunct2, THEN conjunct2, THEN conjunct2, THEN conjunct2,
          THEN conjunct2, THEN conjunct1, THEN mp, OF e7]
    by (rule conjunct2)
  then have c7: "messages (new_TestResult [1] [1] True (Fin (9999 * ln 10000 / 5000))
                   (Some [modalities_message ''prediction'' [''a'', ''b'']])) = messages ?r7"
    using prediction_psi_passes by (metis snd_conv)
  have "\<forall>threshold' res'.
          snd (test_drift_prediction_chi_square sample_chi2_cdf (category_dataset [''a''])
                 (category_dataset [''b'']) sample_label_model (Some 20) threshold' (1 / 5)
                 sample_uuid_hex) = Inr res'
          \<longrightarrow> messages res' = messages ?r6"
    using failed_test_messages
         [where chi2_cdf = sample_chi2_cdf
            and reference_cat_slice = "category_dataset [''a'']"
            and actual_cat_slice = "category_dataset [''b'']"
            and label_model = sample_label_model
            and threshold = "Some (1 / 20)" and max_categories = "Some 20"
            and contribution_percent = "1 / 5" and uuid_hex = sample_uuid_hex and res = ?r6,
          THEN conjunct2, THEN conjunct2, THEN conjunct2, THEN conjunct2, THEN conjunct2,
          THEN conjunct2, THEN conjunct2, THEN mp, OF e8]
    by (rule conjunct2)
  then have c8: "messages (new_TestResult [1] [1] True (Fin 0)
                   (None :: fstr_part list TestMessage list option)) = messages ?r6"
    using prediction_chi_passes by (metis snd_conv)
  have p5: "test_drift_psi (category_dataset [''a'']) (category_dataset [''b'']) ''y''
        (Some 20000) (Some 20) (1 / 5) sample_uuid_hex
     = Inr (new_TestResult [1] [1] True (Fin (9999 * ln 10000 / 5000))
              (Some [modalities_message ''data'' [''a'', ''b'']]))"
    by (rule feature_psi_passes)
  have p6: "test_drift_chi_square sample_chi2_cdf (category_dataset [''a''])
        (category_dataset [''b'']) ''y'' (Some (- 1)) (Some 20) (1 / 5) sample_uuid_hex
     = Inr (new_TestResult [1] [1] True (Fin 0) None)"
    by (rule feature_chi_passes)
  have p7: "snd (test_drift_prediction_psi (category_dataset [''a''])
            (category_dataset [''b'']) sample_label_model (Some 20) (Some 20000) (1 / 5)
            sample_uuid_hex)
     = Inr (new_TestResult [1] [1] True (Fin (9999 * ln 10000 / 5000))
              (Some [modalities_message ''prediction'' [''a'', ''b'']]))"
    by (simp add: prediction_psi_passes)
  have p8: "snd (test_drift_prediction_chi_square sample_chi2_cdf (category_dataset [''a''])
            (category_dataset [''b'']) sample_label_model (Some 20) (Some (- 1)) (1 / 5)
            sample_uuid_hex)
     = Inr (new_TestResult [1] [1] True (Fin 0) None)"
    by (simp add: prediction_chi_passes)
  show ?thesis
    using e1 e2 e3 e4 e5 p5 e6 p6 e7 p7 e8 p8 c1 c3 c4 by (intro conjI) assumption+
qed

text \<open>
  C9 as stated fails. The feature Earth-Mover test with metric 0.25 and threshold 0.1
  fails because the metric is above the threshold, and its message says that the metric
  is below the risk level. The feature PSI test on the reference series \<open>[a]\<close> and the
  actual series \<open>[b]\<close> fails at threshold 0.2, and its only message lists the drifting
  modalities: it reports neither the metric nor the threshold. The feature chi-squared
  test on the same series fails at threshold 0.05 with no message at all.
\<close>

theorem failed_feature_tests_messages:
  "test_drift_earth_movers_distance sample_wasserstein_distance (numeric_dataset [1, 2])
     (numeric_dataset [1, 3]) ''x'' (Some (1 / 10))
     = Inr (new_TestResult [2] [2] False (Fin (1 / 4))
              (Some [drift_failure_message ''data'' ''metric'' ''below'' (Fin (1 / 4))
                       (1 / 10)]))
   \<and> (1 / 10 :: real) < 1 / 4
   \<and> test_drift_psi (category_dataset [''a'']) (category_dataset [''b'']) ''y''
        (Some (1 / 5)) (Some 20) (1 / 5) sample_uuid_hex
     = Inr (new_TestResult [1] [1] False (Fin (9999 * ln 10000 / 5000))
              (Some [\<lparr>pb_type = TestMessageType_ERROR,
                      pb_text =
                        [Lit ''The data is drifting for the following modalities: a,b'']\<rparr>]))
   \<and> test_drift_chi_square sample_chi2_cdf (category_dataset [''a''])
        (category_dataset [''b'']) ''y'' (Some (1 / 20)) (Some 20) (1 / 5) sample_uuid_hex
     = Inr (new_TestResult [1] [1] False (Fin 0) None)"
  using feature_emd_fails feature_psi_fails feature_chi_fails
  by (simp add: modalities_message_def)

section \<open>The result mapping of the worker service\<close>

text \<open>
  A \<open>SingleTestResult\<close> is returned as it is, a \<open>bool\<close> is handed to the constructor
  of \<open>SingleTestResult\<close> as the only keyword \<open>passed\<close>, and an object of another class
  raises \<open>ValueError\<close>.
\<close>

lemma map_result_to_single_test_result_other_classes:
  "map_result_to_single_test_result pb2 (SingleTestResult_obj r) = Inr r
   \<and> map_result_to_single_test_result pb2 (bool_obj b)
       = SingleTestResult_new pb2 (no_kwargs\<lparr>kw_passed := Some b\<rparr>)
   \<and> map_result_to_single_test_result pb2 (other_obj cls)
       = Inl (ValueError (''Result of test can only be '' @ sq @ ''GiskardTestResult'' @ sq
                          @ '' or '' @ sq @ ''bool'' @ sq))"
  by simp

text \<open>
  A \<open>TestResult\<close> whose messages are a list is converted field by field, as far as the
  constructors of the generated classes accept the values.
\<close>

lemma map_result_to_single_test_result_TestResult:
  assumes "messages result = Some ms"
    and "comprehension
           (\<lambda>message.
              TestMessage_new pb2
                (if m_type message = TestMessageLevel_ERROR then TestMessageType_ERROR
                 else TestMessageType_INFO)
                (m_text message))
           ms = Inr pb_messages"
    and "comprehension
           (\<lambda>puc. Partial_unexpected_counts_new pb2 (puc_value puc) (puc_count puc))
           (partial_unexpected_index_list result) = Inr pb_partial_unexpected_index_list"
  shows "map_result_to_single_test_result pb2 (TestResult_obj result)
         = SingleTestResult_new pb2
            \<lparr>kw_passed = Some (passed result),
             kw_messages = Some pb_messages,
             kw_props = Some (props result),
             kw_metric = Some (metric result),
             kw_missing_count = Some (missing_count result),
             kw_missing_percent = Some (missing_percent result),
             kw_unexpected_count = Some (unexpected_count result),
             kw_unexpected_percent = Some (unexpected_percent result),
             kw_unexpected_percent_total = Some (unexpected_percent_total result),
             kw_unexpected_percent_nonmissing = Some (unexpected_percent_nonmissing result),
             kw_partial_unexpected_index_list = Some pb_partial_unexpected_index_list,
             kw_unexpected_index_list = Some (unexpected_index_list result),
             kw_output_df = Some (output_df result),
             kw_number_of_perturbed_rows = Some (number_of_perturbed_rows result),
             kw_actual_slices_size = Some (actual_slices_size result),
             kw_reference_slices_size = Some (reference_slices_size result)\<rparr>"
  using assms by simp

text \<open>The KS test on two equal columns passes and builds its result with no messages.\<close>

lemma passing_test_drift_ks:
  "test_drift_ks sample_ks_2samp (numeric_dataset [1, 2]) (numeric_dataset [1, 2]) ''x''
     (Some (1 / 20))
   = Inr (new_TestResult [2] [2] True (Fin 1) None)"
  by (simp add: test_drift_ks_def extract_numeric calculate_ks_def sample_ks_2samp_def
        generate_message_ks_def length_float64_series float64_series_def)

text \<open>
  C10. A \<open>TestResult\<close> is not always converted field by field. The feature KS test on
  two equal columns returns a passing \<open>TestResult\<close> whose \<open>messages\<close> is \<open>None\<close>, as
  every drift test does when it has nothing to report. On that result the mapping raises
  \<open>TypeError\<close>, whatever the generated classes do: the comprehension over
  \<open>result.messages\<close> iterates \<open>None\<close>.
\<close>

theorem map_result_to_single_test_result_messages_None:
  "test_drift_ks sample_ks_2samp (numeric_dataset [1, 2]) (numeric_dataset [1, 2]) ''x''
     (Some (1 / 20))
     = Inr (new_TestResult [2] [2] True (Fin 1) None)
   \<and> map_result_to_single_test_result pb2
       (TestResult_obj (new_TestResult [2] [2] True (Fin 1) None))
     = Inl (TypeError (sq @ ''NoneType'' @ sq @ '' object is not iterable''))"
  using passing_test_drift_ks by (simp add: new_TestResult_def)

end
